theory Spec2Isabelle
  imports Complex_Main
begin

section \<open>Floating-point values and series\<close>

text \<open>
  The pipeline computes on IEEE doubles held in pandas Series. A series entry is modelled
  as \<open>real option\<close>: \<open>Some v\<close> is the finite number \<open>v\<close> and \<open>None\<close> is NaN, the value
  pandas uses for a missing observation. Arithmetic on finite numbers is that of the
  reals: results are not rounded, and a result beyond the range of a double is modelled
  only where Python raises OverflowError for it (a silent overflow to infinity is outside
  the model). NaN propagates through every operation. A Series is
  the list of its entries, indexed by position (the series of one run share one index
  without duplicates). A quotient can also be infinite (a division by zero), so quotients
  have the type \<open>xfloat\<close>.
\<close>

type_synonym pyfloat = "real option"

abbreviation NaN :: pyfloat where
  "NaN \<equiv> None"

datatype xfloat = Fin real | PInf | NInf | XNaN

datatype error = ValueError | KeyError | ZeroDivisionError | IndexError | OverflowError | FitError

fun fadd :: "pyfloat \<Rightarrow> pyfloat \<Rightarrow> pyfloat" where
  "fadd (Some a) (Some b) = Some (a + b)"
| "fadd _ _ = NaN"

fun fsub :: "pyfloat \<Rightarrow> pyfloat \<Rightarrow> pyfloat" where
  "fsub (Some a) (Some b) = Some (a - b)"
| "fsub _ _ = NaN"

fun fmul :: "pyfloat \<Rightarrow> pyfloat \<Rightarrow> pyfloat" where
  "fmul (Some a) (Some b) = Some (a * b)"
| "fmul _ _ = NaN"

fun fabs :: "pyfloat \<Rightarrow> pyfloat" where
  "fabs (Some a) = Some \<bar>a\<bar>"
| "fabs None = NaN"

text \<open>The comparison \<open>==\<close> of two floats: false as soon as one side is NaN.\<close>

fun feq :: "pyfloat \<Rightarrow> pyfloat \<Rightarrow> bool" where
  "feq (Some a) (Some b) = (a = b)"
| "feq _ _ = False"

text \<open>
  Division of two series entries, as numpy divides: a finite quotient when the divisor is
  not zero, otherwise NaN for \<open>0 / 0\<close> and an infinity with the sign of the dividend (the
  divisors of this program are spreads, whose zero is \<open>+0.0\<close>).
\<close>

fun fdiv :: "pyfloat \<Rightarrow> pyfloat \<Rightarrow> xfloat" where
  "fdiv (Some a) (Some b) =
     (if b = 0 then (if a = 0 then XNaN else if 0 < a then PInf else NInf)
      else Fin (a / b))"
| "fdiv _ _ = XNaN"

fun xabs :: "xfloat \<Rightarrow> xfloat" where
  "xabs (Fin a) = Fin \<bar>a\<bar>"
| "xabs PInf = PInf"
| "xabs NInf = PInf"
| "xabs XNaN = XNaN"

text \<open>The comparison \<open>z > c\<close> with a finite \<open>c\<close>: false for NaN.\<close>

fun xgt :: "xfloat \<Rightarrow> real \<Rightarrow> bool" where
  "xgt (Fin a) c = (c < a)"
| "xgt PInf c = True"
| "xgt NInf c = False"
| "xgt XNaN c = False"

subsection \<open>Rolling windows and their statistics\<close>

text \<open>The non-missing observations of a window, in order.\<close>

fun valid :: "pyfloat list \<Rightarrow> real list" where
  "valid [] = []"
| "valid (None # xs) = valid xs"
| "valid (Some v # xs) = v # valid xs"

text \<open>The window of \<open>w\<close> entries that ends at position \<open>i\<close> (shorter at the start).\<close>

definition window_at :: "nat \<Rightarrow> nat \<Rightarrow> 'a list \<Rightarrow> 'a list" where
  "window_at w i xs = drop (Suc i - w) (take (Suc i) xs)"

text \<open>
  \<open>Series.rolling(window=w, min_periods=minp)\<close> followed by an aggregation \<open>f\<close>: the entry
  at a position is NaN when its window holds fewer than \<open>minp\<close> observations, and \<open>f\<close> of
  the observations otherwise.
\<close>

definition rolling :: "nat \<Rightarrow> nat \<Rightarrow> (real list \<Rightarrow> pyfloat) \<Rightarrow> pyfloat list \<Rightarrow> pyfloat list" where
  "rolling w minp f xs =
     map (\<lambda>i. let obs = valid (window_at w i xs)
              in if length obs < minp then NaN else f obs) [0..<length xs]"

definition mean :: "real list \<Rightarrow> pyfloat" where
  "mean xs = (if xs = [] then NaN else Some (sum_list xs / real (length xs)))"

definition median :: "real list \<Rightarrow> pyfloat" where
  "median xs =
     (if xs = [] then NaN
      else let s = sort xs; n = length s
           in if odd n then Some (s ! (n div 2))
              else Some ((s ! (n div 2 - 1) + s ! (n div 2)) / 2))"

text \<open>The sample standard deviation (\<open>ddof = 1\<close>): NaN for fewer than two observations.\<close>

definition std :: "real list \<Rightarrow> pyfloat" where
  "std xs =
     (if length xs \<le> 1 then NaN
      else let m = sum_list xs / real (length xs)
           in Some (sqrt (sum_list (map (\<lambda>x. (x - m)\<^sup>2) xs) / (real (length xs) - 1))))"

section \<open>Jump detector\<close>

record JumpDetector =
  threshold :: real
  window :: int
  min_observations :: int

text \<open>\<open>returns.dropna()\<close>: the series without its NaN entries.\<close>

definition dropna :: "pyfloat list \<Rightarrow> pyfloat list" where
  "dropna xs = filter (\<lambda>x. x \<noteq> NaN) xs"

text \<open>
  \<open>is_jump.reindex(returns.index, fill_value=False)\<close>: the flags computed on the cleaned
  series are put back at the positions of the non-NaN returns; a position that was
  dropped gets \<open>False\<close>.
\<close>

fun reindex :: "pyfloat list \<Rightarrow> bool list \<Rightarrow> bool list" where
  "reindex [] js = []"
| "reindex (None # xs) js = False # reindex xs js"
| "reindex (Some v # xs) [] = False # reindex xs []"
| "reindex (Some v # xs) (j # js) = j # reindex xs js"

text \<open>
  The standardized residuals of the cleaned series: centre and spread over the rolling
  window with \<open>min_periods = 5\<close>; the spread is 1.4826 times the rolling median absolute
  deviation when \<open>use_robust\<close>, the rolling standard deviation otherwise.
\<close>

definition rolling_std :: "nat \<Rightarrow> bool \<Rightarrow> pyfloat list \<Rightarrow> pyfloat list" where
  "rolling_std w use_robust returns_clean =
     (if use_robust then
        let rolling_median = rolling w 5 median returns_clean;
            rolling_mad = rolling w 5 median (map fabs (map2 fsub returns_clean rolling_median))
        in map (\<lambda>m. fmul m (Some (14826 / 10000))) rolling_mad
      else rolling w 5 std returns_clean)"

definition z_scores :: "nat \<Rightarrow> bool \<Rightarrow> pyfloat list \<Rightarrow> xfloat list" where
  "z_scores w use_robust returns_clean =
     map2 fdiv (map2 fsub returns_clean (rolling w 5 mean returns_clean))
               (rolling_std w use_robust returns_clean)"

text \<open>
  \<open>JumpDetector.detect_jumps\<close>. A series shorter than \<open>min_observations\<close> is passed
  through with no jump. pandas refuses a rolling window smaller than its \<open>min_periods\<close>
  (here 5) with a ValueError.
\<close>

definition detect_jumps ::
  "JumpDetector \<Rightarrow> pyfloat list \<Rightarrow> bool \<Rightarrow> error + (bool list \<times> pyfloat list \<times> pyfloat list)" where
  "detect_jumps self returns use_robust =
     (if int (length returns) < min_observations self then
        Inr (map (\<lambda>_. False) returns, map (\<lambda>_. Some 0) returns, returns)
      else if window self < 5 then Inl ValueError
      else
        let returns_clean = dropna returns;
            zs = z_scores (nat (window self)) use_robust returns_clean;
            is_jump = reindex returns (map (\<lambda>z. xgt (xabs z) (threshold self)) zs);
            jump_returns = map2 (\<lambda>r j. if \<not> j then Some 0 else r) returns is_jump;
            diffusion_returns = map2 (\<lambda>r j. if j then Some 0 else r) returns is_jump
        in Inr (is_jump, jump_returns, diffusion_returns))"

record jump_parameters =
  mu_j :: pyfloat
  sigma_j :: pyfloat
  lambda_j :: real

text \<open>
  \<open>JumpDetector.estimate_jump_parameters\<close>. The filter \<open>jump_returns != 0\<close> keeps every
  entry that is not zero (a NaN is not equal to zero); \<open>mean\<close> and \<open>std\<close> of a Series skip
  NaN entries.
\<close>

definition estimate_jump_parameters :: "pyfloat list \<Rightarrow> jump_parameters" where
  "estimate_jump_parameters jump_returns =
     (let jumps_only = filter (\<lambda>x. x \<noteq> Some 0) jump_returns
      in if length jumps_only = 0 then
           \<lparr>mu_j = Some 0, sigma_j = Some 0, lambda_j = 0\<rparr>
         else
           \<lparr>mu_j = mean (valid jumps_only),
            sigma_j = std (valid jumps_only),
            lambda_j = real (length jumps_only) / real (length jump_returns)\<rparr>)"

text \<open>
  A series that is flat for eight days and then moves: at the last day the rolling median
  absolute deviation is zero while the return is away from the rolling mean.
\<close>

definition flat_then_spike :: "pyfloat list" where
  "flat_then_spike = [Some 0, Some 0, Some 0, Some 0, Some 0, Some 0, Some 0, Some 0, Some 1]"

section \<open>Regime engine\<close>

record RegimeEngine =
  vol_window :: int
  jump_window :: int
  high_vol_pct :: real
  low_vol_pct :: real
  jump_rate_threshold :: real

text \<open>One row of the regime DataFrame: the columns \<open>bull\<close>, \<open>sideways\<close>, \<open>crisis\<close>.\<close>

record regime_probabilities =
  bull :: real
  sideways :: real
  crisis :: real

text \<open>
  \<open>pd.Series(x).rank(pct=True).iloc[-1]\<close>: the rank of the last entry of a window, ties
  sharing the average of their ranks, divided by the number of entries.
\<close>

definition rank_pct_last :: "real list \<Rightarrow> pyfloat" where
  "rank_pct_last xs =
     (if xs = [] then NaN
      else let x = last xs;
               less = length (filter (\<lambda>y. y < x) xs);
               equal = length (filter (\<lambda>y. y = x) xs)
           in Some ((real less + (real equal + 1) / 2) / real (length xs)))"

text \<open>The decision at one timestamp, from the volatility rank \<open>v\<close> and the jump rate \<open>j\<close>.\<close>

definition regime_row :: "RegimeEngine \<Rightarrow> pyfloat \<Rightarrow> pyfloat \<Rightarrow> regime_probabilities" where
  "regime_row self v j =
     (case (v, j) of
        (Some v', Some j') \<Rightarrow>
          if high_vol_pct self < v' \<or> jump_rate_threshold self < j' then
            \<lparr>bull = 0, sideways = 3 / 10, crisis = 7 / 10\<rparr>
          else if v' < low_vol_pct self \<and> j' < jump_rate_threshold self / 2 then
            \<lparr>bull = 7 / 10, sideways = 3 / 10, crisis = 0\<rparr>
          else \<lparr>bull = 0, sideways = 1, crisis = 0\<rparr>
      | _ \<Rightarrow> \<lparr>bull = 0, sideways = 1, crisis = 0\<rparr>)"

text \<open>
  \<open>RegimeEngine.detect_regimes\<close>. A rolling window has \<open>min_periods\<close> equal to its size, so
  the rank and the jump rate are NaN until a full window without NaN is available.
  pandas refuses a negative window (ValueError); with a window of size 0 the rank is taken
  of an empty window (IndexError); the loop looks the jump rate up at every timestamp of
  the volatility series (KeyError when the jump series does not reach that far).
\<close>

definition detect_regimes ::
  "RegimeEngine \<Rightarrow> pyfloat list \<Rightarrow> bool list \<Rightarrow> error + regime_probabilities list" where
  "detect_regimes self volatility is_jump =
     (if vol_window self < 0 then Inl ValueError
      else if vol_window self = 0 \<and> volatility \<noteq> [] then Inl IndexError
      else if jump_window self < 0 then Inl ValueError
      else if length is_jump < length volatility then Inl KeyError
      else
        let vol_rank = rolling (nat (vol_window self)) (nat (vol_window self))
                         rank_pct_last volatility;
            jump_rate = rolling (nat (jump_window self)) (nat (jump_window self))
                          mean (map (\<lambda>b. Some (if b then 1 else 0)) is_jump)
        in Inr (map (\<lambda>t. regime_row self (vol_rank ! t) (jump_rate ! t))
                  [0..<length volatility]))"

section \<open>Volatility engine\<close>

record VolatilityEngine =
  bull_lambda :: real
  crisis_lambda :: real
  garch_p :: int
  garch_q :: int
  min_variance :: real

text \<open>
  The recursion of \<open>Series.ewm(alpha, min_periods, adjust=False).mean()\<close>, after its first
  entry: \<open>weighted\<close> is the running average (NaN until the first observation), \<open>old_wt\<close>
  the weight of the past (it decays over missing entries) and \<open>nobs\<close> the number of
  observations seen. The output is NaN while fewer than \<open>minp\<close> observations were seen.
\<close>

fun ewm_loop :: "real \<Rightarrow> nat \<Rightarrow> pyfloat \<Rightarrow> real \<Rightarrow> nat \<Rightarrow> pyfloat list \<Rightarrow> pyfloat list" where
  "ewm_loop alpha minp weighted old_wt nobs [] = []"
| "ewm_loop alpha minp weighted old_wt nobs (cur # rest) =
     (let nobs' = (if cur \<noteq> NaN then Suc nobs else nobs);
          decayed = old_wt * (1 - alpha);
          weighted' =
            (case weighted of
               None \<Rightarrow> cur
             | Some w \<Rightarrow>
                 (case cur of
                    None \<Rightarrow> Some w
                  | Some c \<Rightarrow>
                      if w \<noteq> c then Some ((decayed * w + alpha * c) / (decayed + alpha))
                      else Some w));
          old_wt' =
            (case weighted of
               None \<Rightarrow> old_wt
             | Some w \<Rightarrow> (case cur of None \<Rightarrow> decayed | Some c \<Rightarrow> 1))
      in (if minp \<le> nobs' then weighted' else NaN)
           # ewm_loop alpha minp weighted' old_wt' nobs' rest)"

definition ewm_mean :: "real \<Rightarrow> nat \<Rightarrow> pyfloat list \<Rightarrow> pyfloat list" where
  "ewm_mean alpha minp xs =
     (case xs of
        [] \<Rightarrow> []
      | x # rest \<Rightarrow>
          let nobs = (if x \<noteq> NaN then 1 else 0)
          in (if minp \<le> nobs then x else NaN) # ewm_loop alpha minp x 1 nobs rest)"

text \<open>\<open>Series.clip(lower=b)\<close>: NaN entries stay NaN, and a NaN bound clips nothing.\<close>

fun clip_lower :: "pyfloat \<Rightarrow> pyfloat \<Rightarrow> pyfloat" where
  "clip_lower (Some b) (Some v) = Some (max v b)"
| "clip_lower None v = v"
| "clip_lower b None = NaN"

text \<open>\<open>np.sqrt\<close>: NaN for a negative number.\<close>

fun fsqrt :: "pyfloat \<Rightarrow> pyfloat" where
  "fsqrt (Some v) = (if v < 0 then NaN else Some (sqrt v))"
| "fsqrt None = NaN"

text \<open>
  \<open>VolatilityEngine.ewma_volatility\<close>. pandas refuses a smoothing factor outside
  \<open>0 < alpha \<le> 1\<close> with a ValueError, and takes \<open>min_periods\<close> to be at least 1.
\<close>

definition ewma_volatility ::
  "VolatilityEngine \<Rightarrow> pyfloat list \<Rightarrow> real \<Rightarrow> int \<Rightarrow> error + pyfloat list" where
  "ewma_volatility self returns lambda_decay min_periods =
     (let alpha = 1 - lambda_decay
      in if alpha \<le> 0 \<or> 1 < alpha then Inl ValueError
         else
           let returns_squared = map (\<lambda>r. fmul r r) returns;
               variance = ewm_mean alpha (nat (max min_periods 1)) returns_squared;
               variance = map (clip_lower (Some (min_variance self))) variance
           in Inr (map fsqrt variance))"

text \<open>
  The external GARCH fitting routine (the \<open>arch\<close> package): given the returns in percent
  and the orders \<open>p\<close> and \<open>q\<close> it yields the conditional volatility series or raises.
\<close>

type_synonym garch_fit = "pyfloat list \<Rightarrow> int \<Rightarrow> int \<Rightarrow> error + pyfloat list"

text \<open>
  \<open>VolatilityEngine.garch_volatility\<close>: the fitted conditional volatility, back in decimal
  and floored at \<open>sqrt(min_variance)\<close>; when anything raises in the fit, the EWMA with
  decay 0.90 and the default \<open>min_periods = 20\<close>.
\<close>

definition garch_volatility ::
  "garch_fit \<Rightarrow> VolatilityEngine \<Rightarrow> pyfloat list \<Rightarrow> int \<Rightarrow> int \<Rightarrow> error + pyfloat list" where
  "garch_volatility arch_fit self returns p q =
     (case arch_fit (map (\<lambda>r. fmul r (Some 100)) returns) p q of
        Inr cond_vol \<Rightarrow>
          Inr (map (clip_lower (fsqrt (Some (min_variance self))))
                 (map (\<lambda>v. fmul v (Some (1 / 100))) cond_vol))
      | Inl e \<Rightarrow> ewma_volatility self returns (9 / 10) 20)"

definition estimate_regime_volatility ::
  "garch_fit \<Rightarrow> VolatilityEngine \<Rightarrow> pyfloat list \<Rightarrow> string \<Rightarrow> error + pyfloat list" where
  "estimate_regime_volatility arch_fit self returns regime =
     (if regime = ''bull'' then ewma_volatility self returns (bull_lambda self) 20
      else if regime = ''sideways'' then
        garch_volatility arch_fit self returns (garch_p self) (garch_q self)
      else if regime = ''crisis'' then ewma_volatility self returns (crisis_lambda self) 20
      else Inl ValueError)"

text \<open>The entry of a series at a position of another index: NaN where it has none.\<close>

definition entry_at :: "pyfloat list \<Rightarrow> nat \<Rightarrow> pyfloat" where
  "entry_at xs t = (if t < length xs then xs ! t else NaN)"

text \<open>
  \<open>VolatilityEngine.compute_effective_volatility\<close>: the three regime volatilities are laid
  on the index of the returns and weighted, row by row, with the regime probabilities;
  a position that one of the operands lacks gets NaN. The weighted sum is not clipped. Its
  products and sums are exact here and rounded in the code, so what is stated of the blend
  below are the properties that rounding does not change (which entries are NaN, the floor
  of the three operands, the sign), not its distance to \<open>sqrt(min_variance)\<close>.
\<close>

definition compute_effective_volatility ::
  "garch_fit \<Rightarrow> VolatilityEngine \<Rightarrow> pyfloat list \<Rightarrow> regime_probabilities list
     \<Rightarrow> error + pyfloat list" where
  "compute_effective_volatility arch_fit self returns regime_probs =
     (case estimate_regime_volatility arch_fit self returns ''bull'' of
        Inl e \<Rightarrow> Inl e
      | Inr vol_bull \<Rightarrow>
     (case estimate_regime_volatility arch_fit self returns ''sideways'' of
        Inl e \<Rightarrow> Inl e
      | Inr vol_sideways \<Rightarrow>
     (case estimate_regime_volatility arch_fit self returns ''crisis'' of
        Inl e \<Rightarrow> Inl e
      | Inr vol_crisis \<Rightarrow>
          let n = length returns;
              col = (\<lambda>f t. if t < length regime_probs then Some (f (regime_probs ! t)) else NaN)
          in Inr (map (\<lambda>t. fadd (fadd (fmul (entry_at (take n vol_bull) t) (col bull t))
                                      (fmul (entry_at (take n vol_sideways) t) (col sideways t)))
                                (fmul (entry_at (take n vol_crisis) t) (col crisis t)))
                    [0..<max n (length regime_probs)]))))"

section \<open>Drift engine\<close>

text \<open>
  The engine with the two noise matrices of its one-dimensional Kalman filter, \<open>kf.Q\<close> and
  \<open>kf.R\<close>, which \<open>update_regime_parameters\<close> sets.
\<close>

record DriftEngine =
  initial_drift :: real
  state_noise_factor :: real
  min_obs_variance :: real
  adaptive :: bool
  kf_Q :: real
  kf_R :: real

definition update_regime_parameters :: "DriftEngine \<Rightarrow> string \<Rightarrow> real \<Rightarrow> error + DriftEngine" where
  "update_regime_parameters self regime volatility =
     (let q_mult = (if regime = ''bull'' then 1
                    else if regime = ''sideways'' then 3
                    else if regime = ''crisis'' then 10
                    else 1);
          self = self\<lparr>kf_Q := state_noise_factor self * q_mult\<rparr>
      in if adaptive self then
           let r_val = max (volatility\<^sup>2) (min_obs_variance self);
               r_val = (if regime = ''crisis'' then r_val * 2 else r_val)
           in Inr (self\<lparr>kf_R := r_val\<rparr>)
         else Inr self)"

section \<open>Pricing engine\<close>

text \<open>
  A Python float operation that can raise (\<open>math.exp\<close>, the power \<open>**\<close>) raises
  OverflowError when its result rounds to infinity, that is from \<open>2^1024 - 2^970\<close> on.
  numpy's operations return infinity there instead, without an error.
\<close>

definition overflows :: "real \<Rightarrow> bool" where
  "overflows x \<longleftrightarrow> 2 ^ 1024 - 2 ^ 970 \<le> \<bar>x\<bar>"

text \<open>
  \<open>PricingEngine.black_scholes_call\<close>; \<open>S\<close>, \<open>K\<close>, \<open>T\<close> and \<open>r\<close> are Python floats.
  \<open>norm_cdf\<close> is the standard normal distribution function of scipy, a parameter of the
  model. \<open>np_sigma\<close> tells that \<open>sigma\<close> is a numpy float (as \<open>merton_call\<close> passes it)
  rather than a Python float, whose square can raise OverflowError. The quotient \<open>S / K\<close>
  raises ZeroDivisionError for \<open>K = 0\<close>; \<open>np.log\<close> of a negative quotient is NaN, and of
  zero it is minus infinity, where the distribution function is 0 and the price \<open>0.0\<close>.
\<close>

definition black_scholes_call ::
  "(real \<Rightarrow> real) \<Rightarrow> bool \<Rightarrow> real \<Rightarrow> real \<Rightarrow> real \<Rightarrow> real \<Rightarrow> real \<Rightarrow> error + pyfloat" where
  "black_scholes_call norm_cdf np_sigma S K T r sigma =
     (if T \<le> 0 \<or> sigma \<le> 0 then Inr (Some (max (S - K) 0))
      else if K = 0 then Inl ZeroDivisionError
      else if overflows (sigma\<^sup>2) \<and> \<not> np_sigma then Inl OverflowError
      else if S / K < 0 then Inr NaN
      else if S / K = 0 then Inr (Some 0)
      else
        let d1 = (ln (S / K) + (r + 0.5 * sigma\<^sup>2) * T) / (sigma * sqrt T);
            d2 = d1 - sigma * sqrt T
        in Inr (Some (S * norm_cdf d1 - K * exp (- r * T) * norm_cdf d2)))"

text \<open>
  The term of the Merton series for \<open>k\<close> jumps: the Poisson weight times the
  Black-Scholes price at the volatility and rate adjusted for \<open>k\<close> jumps. \<open>S\<close>, \<open>K\<close>,
  \<open>T\<close>, \<open>r\<close>, \<open>sigma\<close> and \<open>lam\<close> are Python floats, as \<open>main\<close> passes them.
  \<open>np_params\<close> tells that the jump parameters \<open>mu_j\<close> and \<open>sigma_j\<close> are numpy floats
  (what \<open>estimate_jump_parameters\<close> returns when there are jumps) rather than Python
  floats (its result without jumps, or literals). In the order of the code:
  \<^item> the weight raises OverflowError when \<open>math.exp\<close> or the power overflows, and from
    \<open>k = 171\<close> on, where \<open>math.factorial(k)\<close> is too large to divide a float by;
  \<^item> \<open>sigma**2\<close> raises OverflowError when it overflows, and so does \<open>sigma_j**2\<close> of a
    Python float;
  \<^item> both adjustments divide by \<open>T\<close>: for \<open>T = 0\<close> that is a ZeroDivisionError on Python
    floats, and NaN or infinity on numpy floats;
  \<^item> \<open>math.exp\<close> in the drift compensation raises OverflowError when it overflows.

  For \<open>T \<le> 0\<close> the adjusted volatility and rate can be NaN or infinite in the code (a
  division by zero, the square root of a negative number); their values are not looked at,
  since \<open>black_scholes_call\<close> returns the intrinsic value at once.
\<close>

definition merton_term ::
  "(real \<Rightarrow> real) \<Rightarrow> bool \<Rightarrow> real \<Rightarrow> real \<Rightarrow> real \<Rightarrow> real \<Rightarrow> real \<Rightarrow> real \<Rightarrow> real \<Rightarrow> real
     \<Rightarrow> nat \<Rightarrow> error + pyfloat" where
  "merton_term norm_cdf np_params S K T r sigma lam muj sigmaj k =
     (if overflows (exp (- lam * T)) \<or> overflows ((lam * T) ^ k) \<or> 171 \<le> k then
        Inl OverflowError
      else
        let poisson_weight = exp (- lam * T) * (lam * T) ^ k / fact k
        in if overflows (sigma\<^sup>2) \<or> (overflows (sigmaj\<^sup>2) \<and> \<not> np_params) then
             Inl OverflowError
           else if T = 0 \<and> \<not> np_params then Inl ZeroDivisionError
           else if overflows (exp (muj + 0.5 * sigmaj\<^sup>2)) then Inl OverflowError
           else
             let sigma_k = sqrt (sigma\<^sup>2 + (real k * sigmaj\<^sup>2) / T);
                 r_k = r - lam * (exp (muj + 0.5 * sigmaj\<^sup>2) - 1) + (real k * muj) / T
             in (case black_scholes_call norm_cdf True S K T r_k sigma_k of
                   Inl e \<Rightarrow> Inl e
                 | Inr bs \<Rightarrow> Inr (fmul (Some poisson_weight) bs)))"

text \<open>The loop \<open>for k in range(n_terms): price += term k\<close>; it stops at the first error.\<close>

fun merton_loop :: "(nat \<Rightarrow> error + pyfloat) \<Rightarrow> nat list \<Rightarrow> pyfloat \<Rightarrow> error + pyfloat" where
  "merton_loop term [] price = Inr price"
| "merton_loop term (k # ks) price =
     (case term k of
        Inl e \<Rightarrow> Inl e
      | Inr v \<Rightarrow> merton_loop term ks (fadd price v))"

definition merton_call ::
  "(real \<Rightarrow> real) \<Rightarrow> bool \<Rightarrow> real \<Rightarrow> real \<Rightarrow> real \<Rightarrow> real \<Rightarrow> real \<Rightarrow> real \<Rightarrow> real \<Rightarrow> real
     \<Rightarrow> nat \<Rightarrow> error + pyfloat" where
  "merton_call norm_cdf np_params S K T r sigma lam muj sigmaj n_terms =
     merton_loop (merton_term norm_cdf np_params S K T r sigma lam muj sigmaj)
       [0..<n_terms] (Some 0)"

section \<open>Decision stage\<close>

text \<open>
  The last stage of \<open>main\<close>: confidence, direction, position and verdict, from the
  mispricing, the last volatility and drift uncertainty, the last regime probabilities and
  the configuration. The scalars of this stage are finite numbers.
\<close>

record kelly_config =
  jump_risk_multiplier :: real
  uncertainty_scale :: real
  fraction :: real
  bull_max_position :: real
  sideways_max_position :: real
  crisis_max_position :: real
  max_position :: real
  min_position :: real

record decision_config =
  min_confidence :: real
  allow_crisis_trades :: bool

datatype verdict = BUY | SELL | REFUSE

definition sigmoid :: "real \<Rightarrow> real \<Rightarrow> real" where
  "sigmoid x k = 1 / (1 + exp (- k * (x - 0.5)))"

text \<open>
  \<open>min(1.0, abs(mispricing) / threshold)\<close>. The mispricing is a numpy float, whose division
  by zero is infinite or NaN rather than an error; \<open>min(1.0, x)\<close> is \<open>1.0\<close> unless
  \<open>x < 1.0\<close>, so a zero threshold gives \<open>1.0\<close>.
\<close>

definition raw_bias :: "real \<Rightarrow> real \<Rightarrow> real" where
  "raw_bias mispricing buy_threshold =
     (if buy_threshold = 0 then 1 else min 1 (\<bar>mispricing\<bar> / buy_threshold))"

text \<open>\<open>sigmoid(raw_bias)\<close>, with the default steepness \<open>k = 5.0\<close>.\<close>

definition confidence :: "real \<Rightarrow> real \<Rightarrow> real" where
  "confidence mispricing buy_threshold = sigmoid (raw_bias mispricing buy_threshold) 5"

definition direction :: "real \<Rightarrow> real" where
  "direction mispricing = (if mispricing < 0 then 1 else if 0 < mispricing then - 1 else 0)"

text \<open>
  The Kelly position, capped by the regime-weighted maximum and by \<open>max_position\<close>. The
  uncertainty penalty divides Python floats: ZeroDivisionError when its denominator is zero.
\<close>

definition position ::
  "kelly_config \<Rightarrow> real \<Rightarrow> real \<Rightarrow> real \<Rightarrow> real \<Rightarrow> regime_probabilities \<Rightarrow> error + real" where
  "position kel_cfg mispricing conf sigma_t uncertainty_t probs =
     (let risk = sigma_t * jump_risk_multiplier kel_cfg;
          base_kelly = conf / max risk (1 / 10 ^ 6)
      in if 1 + uncertainty_scale kel_cfg * uncertainty_t = 0 then Inl ZeroDivisionError
         else
           let penalty = 1 / (1 + uncertainty_scale kel_cfg * uncertainty_t);
               kelly_fraction = fraction kel_cfg * base_kelly * penalty;
               max_cap = bull_max_position kel_cfg * bull probs
                       + sideways_max_position kel_cfg * sideways probs
                       + crisis_max_position kel_cfg * crisis probs;
               pos = direction mispricing * min kelly_fraction max_cap
           in Inr (max (- max_position kel_cfg) (min (max_position kel_cfg) pos)))"

definition final_verdict ::
  "decision_config \<Rightarrow> kelly_config \<Rightarrow> real \<Rightarrow> real \<Rightarrow> real \<Rightarrow> real \<Rightarrow> verdict" where
  "final_verdict dec_cfg kel_cfg mispricing conf pos crisis_p =
     (if \<not> (mispricing = 0 \<or> conf \<le> min_confidence dec_cfg \<or> \<bar>pos\<bar> < min_position kel_cfg
             \<or> (0.5 < crisis_p \<and> \<not> allow_crisis_trades dec_cfg))
      then (if mispricing < 0 then BUY else if 0 < mispricing then SELL else REFUSE)
      else REFUSE)"

text \<open>The stage as a whole: the confidence, the position and the verdict it prints.\<close>

definition decision_stage ::
  "decision_config \<Rightarrow> kelly_config \<Rightarrow> real \<Rightarrow> real \<Rightarrow> real \<Rightarrow> real \<Rightarrow> regime_probabilities
     \<Rightarrow> error + (real \<times> real \<times> verdict)" where
  "decision_stage dec_cfg kel_cfg mispricing buy_threshold sigma_t uncertainty_t probs =
     (let conf = confidence mispricing buy_threshold
      in case position kel_cfg mispricing conf sigma_t uncertainty_t probs of
           Inl e \<Rightarrow> Inl e
         | Inr pos \<Rightarrow>
             Inr (conf, pos, final_verdict dec_cfg kel_cfg mispricing conf pos (crisis probs)))"

text \<open>A sample configuration of the decision stage.\<close>

definition sample_dec_cfg :: decision_config where
  "sample_dec_cfg = \<lparr>min_confidence = 1 / 2, allow_crisis_trades = False\<rparr>"

definition sample_kel_cfg :: kelly_config where
  "sample_kel_cfg = \<lparr>jump_risk_multiplier = 1, uncertainty_scale = 10, fraction = 1,
     bull_max_position = 1 / 4, sideways_max_position = 2 / 10, crisis_max_position = 5 / 100,
     max_position = 1 / 4, min_position = 1 / 100\<rparr>"

text \<open>
  A sample run of the volatility engine: the default parameters, twenty days of a
  one-percent return, a fitting routine that always fails, and the sideways row of the
  regime engine on every day.
\<close>

definition default_engine :: VolatilityEngine where
  "default_engine = \<lparr>bull_lambda = 94 / 100, crisis_lambda = 85 / 100, garch_p = 1, garch_q = 1,
     min_variance = 1 / 10 ^ 6\<rparr>"

definition steady_returns :: "pyfloat list" where
  "steady_returns = replicate 20 (Some (1 / 100))"

definition failing_fit :: garch_fit where
  "failing_fit returns_pct p q = Inl FitError"

definition all_sideways :: "regime_probabilities list" where
  "all_sideways = replicate 20 \<lparr>bull = 0, sideways = 1, crisis = 0\<rparr>"

section \<open>Properties of the jump detector\<close>

lemma length_reindex: "length (reindex xs js) = length xs"
  by (induction xs js rule: reindex.induct) auto

lemma reindex_NaN: "t < length xs \<Longrightarrow> xs ! t = NaN \<Longrightarrow> \<not> reindex xs js ! t"
proof (induction xs js arbitrary: t rule: reindex.induct)
  case (1 js)
  then show ?case by simp
next
  case (2 xs js)
  then show ?case by (cases t) auto
next
  case (3 v xs)
  then show ?case by (cases t) auto
next
  case (4 v xs j js)
  then show ?case by (cases t) auto
qed

lemma reindex_nth:
  "length js = length (dropna xs) \<Longrightarrow> t < length xs \<Longrightarrow> xs ! t \<noteq> NaN \<Longrightarrow>
   reindex xs js ! t = js ! length (dropna (take t xs))"
proof (induction xs js arbitrary: t rule: reindex.induct)
  case (1 js)
  then show ?case by simp
next
  case (2 xs js)
  then show ?case by (cases t) (auto simp: dropna_def)
next
  case (3 v xs)
  then show ?case by (simp add: dropna_def)
next
  case (4 v xs j js)
  then show ?case by (cases t) (auto simp: dropna_def)
qed

lemma dropna_take_less:
  "t < length xs \<Longrightarrow> xs ! t \<noteq> NaN \<Longrightarrow> length (dropna (take t xs)) < length (dropna xs)"
proof (induction xs arbitrary: t)
  case Nil
  then show ?case by simp
next
  case (Cons x xs)
  then show ?case by (cases t) (auto simp: dropna_def)
qed

lemma dropna_nth:
  "t < length xs \<Longrightarrow> xs ! t \<noteq> NaN \<Longrightarrow> dropna xs ! length (dropna (take t xs)) = xs ! t"
proof (induction xs arbitrary: t)
  case Nil
  then show ?case by simp
next
  case (Cons x xs)
  then show ?case by (cases t) (auto simp: dropna_def)
qed

lemma length_rolling: "length (rolling w minp f xs) = length xs"
  by (simp add: rolling_def)

lemma length_rolling_std: "length (rolling_std w rb xs) = length xs"
  by (simp add: rolling_std_def length_rolling Let_def)

lemma length_z_scores: "length (z_scores w rb xs) = length xs"
  by (simp add: z_scores_def length_rolling length_rolling_std)

lemma z_scores_nth:
  "i < length rc \<Longrightarrow>
   z_scores w rb rc ! i = fdiv (fsub (rc ! i) (rolling w 5 mean rc ! i)) (rolling_std w rb rc ! i)"
  by (simp add: z_scores_def length_rolling length_rolling_std)

lemma xgt_xabs_fdiv_NaN: "fdiv d s = XNaN \<Longrightarrow> \<not> xgt (xabs (fdiv d s)) c"
  by simp

lemma xgt_xabs_fdiv_zero:
  "xgt (xabs (fdiv d (Some 0))) c = (d \<noteq> NaN \<and> d \<noteq> Some 0)"
  by (cases d) auto

lemma detect_jumps_lengths:
  assumes "detect_jumps self returns use_robust = Inr (is_jump, jump_returns, diffusion_returns)"
  shows "length is_jump = length returns \<and> length jump_returns = length returns
       \<and> length diffusion_returns = length returns"
  using assms by (auto simp: detect_jumps_def Let_def length_reindex split: if_splits)

lemma detect_jumps_routing:
  assumes "detect_jumps self returns use_robust = Inr (is_jump, jump_returns, diffusion_returns)"
      and "t < length returns"
  shows "jump_returns ! t = (if is_jump ! t then returns ! t else Some 0)"
    and "diffusion_returns ! t = (if is_jump ! t then Some 0 else returns ! t)"
  using assms by (auto simp: detect_jumps_def Let_def length_reindex split: if_splits)

lemma detect_jumps_NaN:
  assumes "detect_jumps self returns use_robust = Inr (is_jump, jump_returns, diffusion_returns)"
      and "t < length returns" and "returns ! t = NaN"
  shows "\<not> is_jump ! t"
  using assms by (auto simp: detect_jumps_def Let_def reindex_NaN split: if_splits)

lemma detect_jumps_main:
  assumes "detect_jumps self returns use_robust = Inr (is_jump, jump_returns, diffusion_returns)"
      and "min_observations self \<le> int (length returns)"
  shows "is_jump = reindex returns (map (\<lambda>z. xgt (xabs z) (threshold self))
           (z_scores (nat (window self)) use_robust (dropna returns)))"
  using assms by (auto simp: detect_jumps_def Let_def split: if_splits)

lemma upt_9: "[0..<9] = [0, 1, 2, 3, 4, 5, 6, 7, 8]"
  by (simp add: upt_rec)

lemma rolling_std_flat_then_spike:
  "rolling_std 5 True flat_then_spike =
     [NaN, NaN, NaN, NaN, NaN, NaN, NaN, NaN, Some 0]"
  by (simp add: flat_then_spike_def rolling_std_def rolling_def window_at_def median_def upt_9 Let_def)

lemma rolling_mean_flat_then_spike:
  "rolling 5 5 mean flat_then_spike =
     [NaN, NaN, NaN, NaN, Some 0, Some 0, Some 0, Some 0, Some (1 / 5)]"
  by (simp add: flat_then_spike_def rolling_def window_at_def mean_def upt_9 Let_def)

lemma detect_jumps_flat_then_spike:
  "detect_jumps \<lparr>threshold = 3, window = 5, min_observations = 5\<rparr> flat_then_spike True =
     Inr ([False, False, False, False, False, False, False, False, True],
          [Some 0, Some 0, Some 0, Some 0, Some 0, Some 0, Some 0, Some 0, Some 1],
          [Some 0, Some 0, Some 0, Some 0, Some 0, Some 0, Some 0, Some 0, Some 0])"
proof -
  have d: "dropna flat_then_spike = flat_then_spike"
    by (simp add: dropna_def flat_then_spike_def)
  have z: "z_scores 5 True flat_then_spike =
     [XNaN, XNaN, XNaN, XNaN, XNaN, XNaN, XNaN, XNaN, PInf]"
    unfolding z_scores_def rolling_std_flat_then_spike rolling_mean_flat_then_spike
    by (simp add: flat_then_spike_def)
  show ?thesis
    unfolding detect_jumps_def by (simp add: d z Let_def) (simp add: flat_then_spike_def)
qed

subsection \<open>Conservation\<close>

text \<open>
  Claim C1 (conservation), as the code has it. At every timestamp the return goes whole to
  one of the two series and the other holds \<open>0.0\<close>: to the jump series when the day is
  flagged, to the diffusion series otherwise. For a return that is a number,
  \<open>jump_return + diffusion_return == original_return\<close> holds exactly. A NaN return is
  never flagged: it stays in the diffusion series, the jump series holds \<open>0.0\<close>, and their
  sum is NaN (which no comparison \<open>==\<close> accepts).
\<close>

theorem detect_jumps_conservation:
  assumes "detect_jumps self returns use_robust = Inr (is_jump, jump_returns, diffusion_returns)"
      and "t < length returns"
  shows "(if is_jump ! t
          then jump_returns ! t = returns ! t \<and> diffusion_returns ! t = Some 0
          else jump_returns ! t = Some 0 \<and> diffusion_returns ! t = returns ! t)
       \<and> (if returns ! t = NaN
          then \<not> is_jump ! t \<and> fadd (jump_returns ! t) (diffusion_returns ! t) = NaN
          else feq (fadd (jump_returns ! t) (diffusion_returns ! t)) (returns ! t))"
proof -
  note r = detect_jumps_routing [OF assms]
  show ?thesis
  proof (cases "returns ! t")
    case None
    with detect_jumps_NaN [OF assms] r show ?thesis by simp
  next
    case (Some v)
    with r show ?thesis by simp
  qed
qed

text \<open>The conservation theorem at the last day of the flat series, a flagged day.\<close>

theorem detect_jumps_conservation_witness:
  "detect_jumps \<lparr>threshold = 3, window = 5, min_observations = 5\<rparr> flat_then_spike True =
     Inr ([False, False, False, False, False, False, False, False, True],
          [Some 0, Some 0, Some 0, Some 0, Some 0, Some 0, Some 0, Some 0, Some 1],
          [Some 0, Some 0, Some 0, Some 0, Some 0, Some 0, Some 0, Some 0, Some 0])
   \<and> 8 < length flat_then_spike
   \<and> feq (fadd (Some 1) (Some 0)) (flat_then_spike ! 8)"
  using detect_jumps_flat_then_spike
    detect_jumps_conservation [OF detect_jumps_flat_then_spike, of 8]
  by (simp add: flat_then_spike_def)

text \<open>
  The comparison of claim C1 fails at a missing return: on a three-day series (shorter than
  \<open>min_observations = 30\<close>) with NaN on the second day, the jump series holds \<open>0.0\<close>
  and the diffusion series NaN there, and \<open>0.0 + NaN == NaN\<close> is false.
\<close>

theorem detect_jumps_conservation_counterexample:
  "detect_jumps \<lparr>threshold = 3, window = 20, min_observations = 30\<rparr>
       [Some (1 / 100), NaN, Some (- 2 / 100)] True =
     Inr ([False, False, False], [Some 0, Some 0, Some 0], [Some (1 / 100), NaN, Some (- 2 / 100)])
   \<and> \<not> feq (fadd ([Some 0, Some 0, Some 0] ! 1) ([Some (1 / 100), NaN, Some (- 2 / 100)] ! 1))
            ([Some (1 / 100), NaN, Some (- 2 / 100)] ! 1)"
  by (simp add: detect_jumps_def)

subsection \<open>Flagged points\<close>

text \<open>
  Claim C7 (which points are flagged), as the code has it. On a series shorter than
  \<open>min_observations\<close> nothing is flagged, and a NaN return is never flagged. Otherwise the
  flag of a day is the comparison of its absolute standardized residual, deviation from
  the rolling mean over rolling spread, with the threshold. A residual that is NaN (too
  few observations in the window, or a zero deviation over a zero spread) is a non-jump.
  A zero spread under a non-zero deviation makes the residual infinite, and that day is
  flagged whatever the threshold. A finite residual is flagged when its absolute value
  exceeds the threshold.
\<close>

theorem detect_jumps_flags:
  assumes "detect_jumps self returns use_robust = Inr (is_jump, jump_returns, diffusion_returns)"
      and "t < length returns"
      and "rc = dropna returns" and "i = length (dropna (take t returns))"
      and "dev = fsub (rc ! i) (rolling (nat (window self)) 5 mean rc ! i)"
      and "spread = rolling_std (nat (window self)) use_robust rc ! i"
  shows "if int (length returns) < min_observations self \<or> returns ! t = NaN
         then \<not> is_jump ! t
         else rc ! i = returns ! t
            \<and> is_jump ! t = xgt (xabs (fdiv dev spread)) (threshold self)
            \<and> (if fdiv dev spread = XNaN then \<not> is_jump ! t
               else if spread = Some 0 then is_jump ! t
               else is_jump ! t = (\<exists>z. fdiv dev spread = Fin z \<and> threshold self < \<bar>z\<bar>))"
proof (cases "int (length returns) < min_observations self")
  case True
  with assms(1,2) have "\<not> is_jump ! t"
    by (auto simp: detect_jumps_def)
  with True show ?thesis by simp
next
  case False
  then have mo: "min_observations self \<le> int (length returns)" by simp
  show ?thesis
  proof (cases "returns ! t = NaN")
    case True
    with detect_jumps_NaN [OF assms(1,2)] show ?thesis by simp
  next
    case nn: False
    let ?zs = "z_scores (nat (window self)) use_robust rc"
    have i: "i < length rc"
      using dropna_take_less [OF assms(2) nn] assms(3,4) by simp
    have rci: "rc ! i = returns ! t"
      using dropna_nth [OF assms(2) nn] assms(3,4) by simp
    have "is_jump ! t = map (\<lambda>z. xgt (xabs z) (threshold self)) ?zs ! i"
      using detect_jumps_main [OF assms(1) mo] reindex_nth [OF _ assms(2) nn] assms(3,4)
      by (simp add: length_z_scores)
    also have "\<dots> = xgt (xabs (?zs ! i)) (threshold self)"
      using i by (simp add: length_z_scores)
    also have "?zs ! i = fdiv dev spread"
      using z_scores_nth [OF i] assms(5,6) by simp
    finally have flag: "is_jump ! t = xgt (xabs (fdiv dev spread)) (threshold self)" .
    have third: "if fdiv dev spread = XNaN then \<not> is_jump ! t
               else if spread = Some 0 then is_jump ! t
               else is_jump ! t = (\<exists>z. fdiv dev spread = Fin z \<and> threshold self < \<bar>z\<bar>)"
    proof (cases "fdiv dev spread = XNaN")
      case True
      with flag show ?thesis by simp
    next
      case nx: False
      show ?thesis
      proof (cases "spread = Some 0")
        case True
        with nx flag show ?thesis by (cases dev) (auto split: if_splits)
      next
        case False
        with nx flag show ?thesis
          by (cases dev; cases spread) (auto split: if_splits)
      qed
    qed
    have c: "\<not> (int (length returns) < min_observations self \<or> returns ! t = NaN)"
      using False nn by simp
    show ?thesis
      by (simp only: c if_False) (intro conjI rci flag third)
  qed
qed

text \<open>The flag theorem at the last day of the flat series.\<close>

theorem detect_jumps_flags_witness:
  "8 < length flat_then_spike
   \<and> rolling_std 5 True (dropna flat_then_spike) ! 8 = Some 0
   \<and> [False, False, False, False, False, False, False, False, True] ! 8
       = xgt (xabs (fdiv (Some (4 / 5)) (Some 0))) 3"
proof -
  have d: "dropna flat_then_spike = flat_then_spike"
    by (simp add: dropna_def flat_then_spike_def)
  have t: "dropna (take 8 flat_then_spike) = take 8 flat_then_spike"
    by (simp add: dropna_def flat_then_spike_def)
  show ?thesis
    using detect_jumps_flags [OF detect_jumps_flat_then_spike _ refl refl refl refl, of 8]
    by (simp add: d t rolling_std_flat_then_spike rolling_mean_flat_then_spike)
       (simp add: flat_then_spike_def)
qed

text \<open>
  Claim C7 fails on the flat series: at its last day the rolling spread (1.4826 times the
  rolling median absolute deviation over 5 days) is zero, and the day is flagged.
\<close>

theorem detect_jumps_zero_spread_counterexample:
  "rolling_std 5 True (dropna flat_then_spike) ! 8 = Some 0
   \<and> detect_jumps \<lparr>threshold = 3, window = 5, min_observations = 5\<rparr> flat_then_spike True =
     Inr ([False, False, False, False, False, False, False, False, True],
          [Some 0, Some 0, Some 0, Some 0, Some 0, Some 0, Some 0, Some 0, Some 1],
          [Some 0, Some 0, Some 0, Some 0, Some 0, Some 0, Some 0, Some 0, Some 0])"
proof -
  have d: "dropna flat_then_spike = flat_then_spike"
    by (simp add: dropna_def flat_then_spike_def)
  show ?thesis
    by (simp add: d rolling_std_flat_then_spike detect_jumps_flat_then_spike)
qed

subsection \<open>Jump parameters\<close>

text \<open>
  Claim C10: when exactly one entry \<open>v\<close> of the jump series is not zero,
  \<open>estimate_jump_parameters\<close> returns \<open>mu_j = v\<close>, \<open>lambda = 1/n\<close> for a series of
  \<open>n\<close> entries, and \<open>sigma_j = NaN\<close>, the sample standard deviation of one observation.
\<close>

theorem estimate_jump_parameters_single:
  assumes "filter (\<lambda>x. x \<noteq> Some 0) jump_returns = [v]"
  shows "estimate_jump_parameters jump_returns =
           \<lparr>mu_j = v, sigma_j = NaN, lambda_j = 1 / real (length jump_returns)\<rparr>"
  using assms by (cases v) (simp_all add: estimate_jump_parameters_def mean_def std_def)

text \<open>A three-day jump series with one jump of 5 percent.\<close>

theorem estimate_jump_parameters_single_witness:
  "filter (\<lambda>x. x \<noteq> Some 0) [Some 0, Some (5 / 100), Some (0::real)] = [Some (5 / 100)]
   \<and> estimate_jump_parameters [Some 0, Some (5 / 100), Some 0] =
       \<lparr>mu_j = Some (5 / 100), sigma_j = NaN, lambda_j = 1 / 3\<rparr>"
  using estimate_jump_parameters_single [of "[Some 0, Some (5 / 100), Some 0]" "Some (5 / 100)"]
  by simp

section \<open>Properties of the regime engine\<close>

lemma regime_row_cases:
  "regime_row self v j = \<lparr>bull = 0, sideways = 1, crisis = 0\<rparr>
   \<or> regime_row self v j = \<lparr>bull = 0, sideways = 3 / 10, crisis = 7 / 10\<rparr>
   \<or> regime_row self v j = \<lparr>bull = 7 / 10, sideways = 3 / 10, crisis = 0\<rparr>"
  by (simp add: regime_row_def split: option.splits)

lemma detect_regimes_Inr:
  assumes "detect_regimes self volatility is_jump = Inr regimes"
  shows "regimes = map (\<lambda>t. regime_row self
            (rolling (nat (vol_window self)) (nat (vol_window self)) rank_pct_last volatility ! t)
            (rolling (nat (jump_window self)) (nat (jump_window self)) mean
               (map (\<lambda>b. Some (if b then 1 else 0)) is_jump) ! t)) [0..<length volatility]"
  using assms by (simp add: detect_regimes_def Let_def split: if_splits)

lemma upt_4: "[0..<4] = [0, 1, 2, 3]"
  by (simp add: upt_rec)

lemma detect_regimes_falling_volatility:
  "detect_regimes
     \<lparr>vol_window = 4, jump_window = 2, high_vol_pct = 8 / 10, low_vol_pct = 3 / 10,
      jump_rate_threshold = 5 / 100\<rparr>
     [Some (4 / 10), Some (3 / 10), Some (2 / 10), Some (1 / 10)] [False, False, False, False] =
   Inr [\<lparr>bull = 0, sideways = 1, crisis = 0\<rparr>, \<lparr>bull = 0, sideways = 1, crisis = 0\<rparr>,
        \<lparr>bull = 0, sideways = 1, crisis = 0\<rparr>, \<lparr>bull = 7 / 10, sideways = 3 / 10, crisis = 0\<rparr>]"
  by (simp add: detect_regimes_def rolling_def window_at_def rank_pct_last_def mean_def
        regime_row_def upt_4 Let_def)

text \<open>
  Claim C2: the regime DataFrame has one row per timestamp of the volatility series, and
  each row is one of the triples \<open>(0, 1, 0)\<close>, \<open>(0, 0.3, 0.7)\<close> and \<open>(0.7, 0.3, 0)\<close>;
  so its entries are non-negative and sum to 1 (within \<open>1e-9\<close>).
\<close>

theorem detect_regimes_rows:
  assumes "detect_regimes self volatility is_jump = Inr regimes"
      and "row \<in> set regimes"
  shows "length regimes = length volatility
       \<and> (row = \<lparr>bull = 0, sideways = 1, crisis = 0\<rparr>
          \<or> row = \<lparr>bull = 0, sideways = 3 / 10, crisis = 7 / 10\<rparr>
          \<or> row = \<lparr>bull = 7 / 10, sideways = 3 / 10, crisis = 0\<rparr>)
       \<and> 0 \<le> bull row \<and> 0 \<le> sideways row \<and> 0 \<le> crisis row
       \<and> \<bar>bull row + sideways row + crisis row - 1\<bar> \<le> 1 / 10 ^ 9"
proof -
  note eq = detect_regimes_Inr [OF assms(1)]
  have len: "length regimes = length volatility"
    by (subst eq) simp
  from assms(2) obtain v j where "row = regime_row self v j"
    by (subst (asm) eq) auto
  with regime_row_cases [of self v j]
  have cases: "row = \<lparr>bull = 0, sideways = 1, crisis = 0\<rparr>
          \<or> row = \<lparr>bull = 0, sideways = 3 / 10, crisis = 7 / 10\<rparr>
          \<or> row = \<lparr>bull = 7 / 10, sideways = 3 / 10, crisis = 0\<rparr>"
    by simp
  then have "0 \<le> bull row \<and> 0 \<le> sideways row \<and> 0 \<le> crisis row
       \<and> \<bar>bull row + sideways row + crisis row - 1\<bar> \<le> 1 / 10 ^ 9"
    by auto
  with len cases show ?thesis by blast
qed

text \<open>
  A falling volatility with no jump, windows of 4 and 2 days: sideways until the window is
  full, then bull-leaning.
\<close>

theorem detect_regimes_rows_witness:
  "detect_regimes
     \<lparr>vol_window = 4, jump_window = 2, high_vol_pct = 8 / 10, low_vol_pct = 3 / 10,
      jump_rate_threshold = 5 / 100\<rparr>
     [Some (4 / 10), Some (3 / 10), Some (2 / 10), Some (1 / 10)] [False, False, False, False] =
   Inr [\<lparr>bull = 0, sideways = 1, crisis = 0\<rparr>, \<lparr>bull = 0, sideways = 1, crisis = 0\<rparr>,
        \<lparr>bull = 0, sideways = 1, crisis = 0\<rparr>, \<lparr>bull = 7 / 10, sideways = 3 / 10, crisis = 0\<rparr>]
   \<and> \<bar>bull \<lparr>bull = 7 / 10, sideways = 3 / 10, crisis = 0\<rparr>
        + sideways \<lparr>bull = 7 / 10, sideways = 3 / 10, crisis = 0\<rparr>
        + crisis \<lparr>bull = 7 / 10, sideways = 3 / 10, crisis = 0\<rparr> - 1\<bar> \<le> 1 / 10 ^ 9"
  using detect_regimes_falling_volatility
    detect_regimes_rows [OF detect_regimes_falling_volatility,
      of "\<lparr>bull = 7 / 10, sideways = 3 / 10, crisis = 0\<rparr>"]
  by simp

section \<open>Properties of the volatility engine\<close>

lemma length_ewm_loop: "length (ewm_loop alpha minp weighted old_wt nobs xs) = length xs"
  by (induction xs arbitrary: weighted old_wt nobs) (simp_all add: Let_def)

lemma length_ewm_mean: "length (ewm_mean alpha minp xs) = length xs"
  by (simp add: ewm_mean_def length_ewm_loop Let_def split: list.splits)

lemma ewma_volatility_Inr:
  assumes "0 < 1 - lambda_decay" and "1 - lambda_decay \<le> 1"
  shows "ewma_volatility self returns lambda_decay min_periods =
     Inr (map fsqrt (map (clip_lower (Some (min_variance self)))
            (ewm_mean (1 - lambda_decay) (nat (max min_periods 1)) (map (\<lambda>r. fmul r r) returns))))"
  using assms by (simp add: ewma_volatility_def Let_def)

lemma ewma_volatility_Inr_iff:
  assumes "ewma_volatility self returns lambda_decay min_periods = Inr vol"
  shows "vol = map fsqrt (map (clip_lower (Some (min_variance self)))
            (ewm_mean (1 - lambda_decay) (nat (max min_periods 1)) (map (\<lambda>r. fmul r r) returns)))"
  using assms by (simp add: ewma_volatility_def Let_def split: if_splits)

lemma ewma_volatility_fallback_returns:
  "\<exists>vol. ewma_volatility self returns (9 / 10) 20 = Inr vol \<and> length vol = length returns"
  by (simp add: ewma_volatility_Inr length_ewm_mean)

lemma ewm_loop_NaN:
  assumes "1 \<le> minp" and "weighted = NaN \<longleftrightarrow> nobs = 0" and "t < length xs"
  shows "ewm_loop alpha minp weighted old_wt nobs xs ! t = NaN
         \<longleftrightarrow> nobs + length (dropna (take (Suc t) xs)) < minp"
  using assms(2,3)
proof (induction xs arbitrary: weighted old_wt nobs t)
  case Nil
  then show ?case by simp
next
  case (Cons cur rest)
  let ?nobs' = "if cur \<noteq> NaN then Suc nobs else nobs"
  let ?decayed = "old_wt * (1 - alpha)"
  let ?weighted' = "case weighted of
               None \<Rightarrow> cur
             | Some w \<Rightarrow>
                 (case cur of
                    None \<Rightarrow> Some w
                  | Some c \<Rightarrow>
                      if w \<noteq> c then Some ((?decayed * w + alpha * c) / (?decayed + alpha))
                      else Some w)"
  let ?old_wt' = "case weighted of
               None \<Rightarrow> old_wt
             | Some w \<Rightarrow> (case cur of None \<Rightarrow> ?decayed | Some c \<Rightarrow> 1)"
  have inv: "?weighted' = NaN \<longleftrightarrow> ?nobs' = 0"
    using Cons.prems(1) by (cases weighted; cases cur) auto
  have unfold: "ewm_loop alpha minp weighted old_wt nobs (cur # rest) =
      (if minp \<le> ?nobs' then ?weighted' else NaN)
        # ewm_loop alpha minp ?weighted' ?old_wt' ?nobs' rest"
    by (simp add: Let_def)
  show ?case
  proof (cases t)
    case 0
    have "(if minp \<le> ?nobs' then ?weighted' else NaN) = NaN \<longleftrightarrow> ?nobs' < minp"
      using inv assms(1) by (cases "minp \<le> ?nobs'") auto
    then show ?thesis
      unfolding unfold 0 by (auto simp: dropna_def)
  next
    case (Suc t')
    with Cons.prems(2) have t': "t' < length rest" by simp
    have "ewm_loop alpha minp ?weighted' ?old_wt' ?nobs' rest ! t' = NaN
         \<longleftrightarrow> ?nobs' + length (dropna (take (Suc t') rest)) < minp"
      by (rule Cons.IH [OF inv t'])
    then show ?thesis
      unfolding unfold Suc by (auto simp: dropna_def)
  qed
qed

lemma ewm_mean_NaN:
  assumes "1 \<le> minp" and "t < length xs"
  shows "ewm_mean alpha minp xs ! t = NaN \<longleftrightarrow> length (dropna (take (Suc t) xs)) < minp"
proof (cases xs)
  case Nil
  with assms(2) show ?thesis by simp
next
  case (Cons x rest)
  let ?nobs = "if x \<noteq> NaN then 1 else 0 :: nat"
  have unfold: "ewm_mean alpha minp (x # rest) =
      (if minp \<le> ?nobs then x else NaN) # ewm_loop alpha minp x 1 ?nobs rest"
    by (simp add: ewm_mean_def Let_def)
  show ?thesis
  proof (cases t)
    case 0
    then show ?thesis
      unfolding Cons unfold using assms(1) by (auto simp: dropna_def)
  next
    case (Suc t')
    with assms(2) Cons have t': "t' < length rest" by simp
    have inv: "x = NaN \<longleftrightarrow> ?nobs = 0" by simp
    have "ewm_loop alpha minp x 1 ?nobs rest ! t' = NaN
         \<longleftrightarrow> ?nobs + length (dropna (take (Suc t') rest)) < minp"
      by (rule ewm_loop_NaN [OF assms(1) inv t'])
    then show ?thesis
      unfolding Cons unfold Suc by (auto simp: dropna_def)
  qed
qed

lemma dropna_squares:
  "length (dropna (take n (map (\<lambda>r. fmul r r) returns))) = length (dropna (take n returns))"
proof (induction returns arbitrary: n)
  case Nil
  then show ?case by simp
next
  case (Cons r returns)
  then show ?case by (cases n; cases r) (auto simp: dropna_def)
qed

lemma floor_entry:
  assumes "0 < mv"
  shows "fsqrt (clip_lower (Some mv) x) = NaN \<longleftrightarrow> x = NaN"
    and "fsqrt (clip_lower (Some mv) x) = Some v \<Longrightarrow> sqrt mv \<le> v"
  using assms by (cases x; auto simp: max_def split: if_splits)+

lemma ewma_volatility_entry:
  assumes "0 < min_variance self"
      and "ewma_volatility self returns lambda_decay min_periods = Inr vol"
      and "t < length returns"
  shows "length vol = length returns"
    and "vol ! t = NaN \<longleftrightarrow> length (dropna (take (Suc t) returns)) < nat (max min_periods 1)"
    and "vol ! t = Some v \<Longrightarrow> sqrt (min_variance self) \<le> v"
proof -
  let ?var = "ewm_mean (1 - lambda_decay) (nat (max min_periods 1)) (map (\<lambda>r. fmul r r) returns)"
  note vol = ewma_volatility_Inr_iff [OF assms(2)]
  show len: "length vol = length returns"
    by (simp add: vol length_ewm_mean)
  have t: "t < length ?var" using assms(3) by (simp add: length_ewm_mean)
  have nth: "vol ! t = fsqrt (clip_lower (Some (min_variance self)) (?var ! t))"
    using t by (simp add: vol)
  have "?var ! t = NaN \<longleftrightarrow>
      length (dropna (take (Suc t) (map (\<lambda>r. fmul r r) returns))) < nat (max min_periods 1)"
    by (rule ewm_mean_NaN) (use assms(3) in simp_all)
  then show "vol ! t = NaN \<longleftrightarrow> length (dropna (take (Suc t) returns)) < nat (max min_periods 1)"
    by (simp only: nth floor_entry(1) [OF assms(1)] dropna_squares)
  show "vol ! t = Some v \<Longrightarrow> sqrt (min_variance self) \<le> v"
    unfolding nth by (rule floor_entry(2) [OF assms(1)])
qed

lemma garch_volatility_entry:
  assumes "0 < min_variance self"
      and "garch_volatility arch_fit self returns p q = Inr vol"
      and "t < length vol" and "vol ! t = Some v"
  shows "sqrt (min_variance self) \<le> v"
proof (cases "arch_fit (map (\<lambda>r. fmul r (Some 100)) returns) p q")
  case (Inl e)
  with assms(2) have e: "ewma_volatility self returns (9 / 10) 20 = Inr vol"
    by (simp add: garch_volatility_def)
  from ewma_volatility_Inr_iff [OF e] have "length vol = length returns"
    by (simp add: length_ewm_mean)
  with assms(3) have "t < length returns" by simp
  from ewma_volatility_entry(3) [OF assms(1) e this assms(4)] show ?thesis .
next
  case (Inr cond_vol)
  with assms(2) have vol: "vol = map (clip_lower (fsqrt (Some (min_variance self))))
                 (map (\<lambda>v. fmul v (Some (1 / 100))) cond_vol)"
    by (simp add: garch_volatility_def)
  with assms(3) have t: "t < length cond_vol" by simp
  have "vol ! t = clip_lower (Some (sqrt (min_variance self))) (fmul (cond_vol ! t) (Some (1 / 100)))"
    using t assms(1) by (simp add: vol)
  with assms(4) show ?thesis
    by (cases "cond_vol ! t") (auto simp: max_def split: if_splits)
qed

lemma estimate_regime_volatility_entry:
  assumes "0 < min_variance self"
      and "estimate_regime_volatility arch_fit self returns regime = Inr vol"
      and "t < length returns" and "entry_at (take (length returns) vol) t = Some v"
  shows "sqrt (min_variance self) \<le> v"
proof -
  from assms(4) have t: "t < length vol" and v: "vol ! t = Some v"
    by (auto simp: entry_at_def split: if_splits)
  from assms(2) consider
      (ewma) l where "ewma_volatility self returns l 20 = Inr vol"
    | (garch) "garch_volatility arch_fit self returns (garch_p self) (garch_q self) = Inr vol"
    by (auto simp: estimate_regime_volatility_def split: if_splits)
  then show ?thesis
  proof cases
    case ewma
    from ewma_volatility_entry(3) [OF assms(1) ewma assms(3) v] show ?thesis .
  next
    case garch
    from garch_volatility_entry [OF assms(1) garch t v] show ?thesis .
  qed
qed

lemma blend_positive:
  fixes a b c pb ps pc f :: real
  assumes "0 < f" and "f \<le> a" and "f \<le> b" and "f \<le> c"
      and "0 \<le> pb" and "0 \<le> ps" and "0 \<le> pc" and "\<bar>pb + ps + pc - 1\<bar> \<le> 1 / 10 ^ 9"
  shows "0 < a * pb + b * ps + c * pc"
proof -
  have "f * pb \<le> a * pb" "f * ps \<le> b * ps" "f * pc \<le> c * pc"
    using assms by (simp_all add: mult_right_mono)
  then have le: "f * (pb + ps + pc) \<le> a * pb + b * ps + c * pc"
    by (simp add: algebra_simps)
  have "(1::real) / 10 ^ 9 < 1" by simp
  with assms(8) have "0 < pb + ps + pc" by linarith
  with assms(1) have "0 < f * (pb + ps + pc)" by simp
  with le show ?thesis by linarith
qed

lemma compute_effective_volatility_Inr:
  assumes "compute_effective_volatility arch_fit self returns regime_probs = Inr eff"
  shows "\<exists>vol_bull vol_sideways vol_crisis.
      estimate_regime_volatility arch_fit self returns ''bull'' = Inr vol_bull
    \<and> estimate_regime_volatility arch_fit self returns ''sideways'' = Inr vol_sideways
    \<and> estimate_regime_volatility arch_fit self returns ''crisis'' = Inr vol_crisis
    \<and> eff = map (\<lambda>t. fadd (fadd
              (fmul (entry_at (take (length returns) vol_bull) t)
                 (if t < length regime_probs then Some (bull (regime_probs ! t)) else NaN))
              (fmul (entry_at (take (length returns) vol_sideways) t)
                 (if t < length regime_probs then Some (sideways (regime_probs ! t)) else NaN)))
              (fmul (entry_at (take (length returns) vol_crisis) t)
                 (if t < length regime_probs then Some (crisis (regime_probs ! t)) else NaN)))
            [0..<max (length returns) (length regime_probs)]"
  using assms by (auto simp: compute_effective_volatility_def Let_def split: sum.splits)

lemma compute_effective_volatility_early:
  assumes "0 < min_variance self"
      and "compute_effective_volatility arch_fit self returns regime_probs = Inr eff"
      and "t < length returns"
      and "length (dropna (take (Suc t) returns)) < 20"
  shows "eff ! t = NaN"
proof -
  from compute_effective_volatility_Inr [OF assms(2)]
  obtain vol_bull vol_sideways vol_crisis where
    vb: "estimate_regime_volatility arch_fit self returns ''bull'' = Inr vol_bull" and
    eff: "eff = map (\<lambda>t. fadd (fadd
              (fmul (entry_at (take (length returns) vol_bull) t)
                 (if t < length regime_probs then Some (bull (regime_probs ! t)) else NaN))
              (fmul (entry_at (take (length returns) vol_sideways) t)
                 (if t < length regime_probs then Some (sideways (regime_probs ! t)) else NaN)))
              (fmul (entry_at (take (length returns) vol_crisis) t)
                 (if t < length regime_probs then Some (crisis (regime_probs ! t)) else NaN)))
            [0..<max (length returns) (length regime_probs)]"
    by blast
  from vb have e: "ewma_volatility self returns (bull_lambda self) 20 = Inr vol_bull"
    by (simp add: estimate_regime_volatility_def)
  have "vol_bull ! t = NaN"
    using ewma_volatility_entry(2) [OF assms(1) e assms(3)] assms(4) by simp
  then have "entry_at (take (length returns) vol_bull) t = NaN"
    using assms(3) by (simp add: entry_at_def)
  then show ?thesis
    using assms(3) by (simp add: eff)
qed

lemma compute_effective_volatility_entry:
  assumes "0 < min_variance self"
      and "compute_effective_volatility arch_fit self returns regime_probs = Inr eff"
      and "t < length returns" and "eff ! t = Some v"
  shows "\<exists>vol_bull vol_sideways vol_crisis a b c.
      estimate_regime_volatility arch_fit self returns ''bull'' = Inr vol_bull
    \<and> estimate_regime_volatility arch_fit self returns ''sideways'' = Inr vol_sideways
    \<and> estimate_regime_volatility arch_fit self returns ''crisis'' = Inr vol_crisis
    \<and> vol_bull ! t = Some a \<and> vol_sideways ! t = Some b \<and> vol_crisis ! t = Some c
    \<and> sqrt (min_variance self) \<le> a \<and> sqrt (min_variance self) \<le> b
    \<and> sqrt (min_variance self) \<le> c
    \<and> v = a * bull (regime_probs ! t) + b * sideways (regime_probs ! t)
            + c * crisis (regime_probs ! t)"
proof -
  let ?n = "length returns"
  from compute_effective_volatility_Inr [OF assms(2)]
  obtain vol_bull vol_sideways vol_crisis where
    vb: "estimate_regime_volatility arch_fit self returns ''bull'' = Inr vol_bull" and
    vs: "estimate_regime_volatility arch_fit self returns ''sideways'' = Inr vol_sideways" and
    vc: "estimate_regime_volatility arch_fit self returns ''crisis'' = Inr vol_crisis" and
    eff: "eff = map (\<lambda>t. fadd (fadd
              (fmul (entry_at (take ?n vol_bull) t)
                 (if t < length regime_probs then Some (bull (regime_probs ! t)) else NaN))
              (fmul (entry_at (take ?n vol_sideways) t)
                 (if t < length regime_probs then Some (sideways (regime_probs ! t)) else NaN)))
              (fmul (entry_at (take ?n vol_crisis) t)
                 (if t < length regime_probs then Some (crisis (regime_probs ! t)) else NaN)))
            [0..<max ?n (length regime_probs)]"
    by blast
  let ?a = "entry_at (take ?n vol_bull) t"
  let ?b = "entry_at (take ?n vol_sideways) t"
  let ?c = "entry_at (take ?n vol_crisis) t"
  have nth: "eff ! t = fadd (fadd
              (fmul ?a (if t < length regime_probs then Some (bull (regime_probs ! t)) else NaN))
              (fmul ?b (if t < length regime_probs then Some (sideways (regime_probs ! t)) else NaN)))
              (fmul ?c (if t < length regime_probs then Some (crisis (regime_probs ! t)) else NaN))"
    using assms(3) by (simp add: eff)
  from assms(4) nth obtain a b c where
    a: "?a = Some a" and b: "?b = Some b" and c: "?c = Some c" and
    v: "v = a * bull (regime_probs ! t) + b * sideways (regime_probs ! t)
            + c * crisis (regime_probs ! t)"
    by (cases ?a; cases ?b; cases ?c; cases "t < length regime_probs") auto
  have floors: "sqrt (min_variance self) \<le> a" "sqrt (min_variance self) \<le> b"
       "sqrt (min_variance self) \<le> c"
    using estimate_regime_volatility_entry [OF assms(1) vb assms(3) a]
          estimate_regime_volatility_entry [OF assms(1) vs assms(3) b]
          estimate_regime_volatility_entry [OF assms(1) vc assms(3) c] by simp_all
  have "vol_bull ! t = Some a" "vol_sideways ! t = Some b" "vol_crisis ! t = Some c"
    using a b c by (auto simp: entry_at_def split: if_splits)
  with vb vs vc floors v show ?thesis by blast
qed

lemma sqrt_hundredth: "sqrt (1 / 10000) = 1 / 100"
  by (rule real_sqrt_unique) (simp_all add: power2_eq_square)

lemma ewm_loop_constant:
  "ewm_loop alpha minp (Some c) old_wt nobs (replicate n (Some c)) =
     map (\<lambda>i. if minp \<le> nobs + Suc i then Some c else NaN) [0..<n]"
proof (induction n arbitrary: old_wt nobs)
  case 0
  then show ?case by simp
next
  case (Suc n)
  have "ewm_loop alpha minp (Some c) old_wt nobs (replicate (Suc n) (Some c)) =
      (if minp \<le> Suc nobs then Some c else NaN)
        # ewm_loop alpha minp (Some c) 1 (Suc nobs) (replicate n (Some c))"
    by (simp add: Let_def)
  also have "\<dots> = (if minp \<le> Suc nobs then Some c else NaN)
        # map (\<lambda>i. if minp \<le> Suc nobs + Suc i then Some c else NaN) [0..<n]"
    by (simp only: Suc.IH)
  also have "\<dots> = map (\<lambda>i. if minp \<le> nobs + Suc i then Some c else NaN) [0..<Suc n]"
    by (simp add: map_upt_Suc del: upt_Suc)
  finally show ?case .
qed

lemma ewm_mean_constant:
  "ewm_mean alpha minp (replicate (Suc n) (Some c)) =
     map (\<lambda>i. if minp \<le> Suc i then Some c else NaN) [0..<Suc n]"
proof -
  have "ewm_mean alpha minp (replicate (Suc n) (Some c)) =
      (if minp \<le> 1 then Some c else NaN)
        # ewm_loop alpha minp (Some c) 1 1 (replicate n (Some c))"
    by (simp add: ewm_mean_def Let_def)
  also have "\<dots> = (if minp \<le> 1 then Some c else NaN)
        # map (\<lambda>i. if minp \<le> 1 + Suc i then Some c else NaN) [0..<n]"
    by (simp only: ewm_loop_constant)
  also have "\<dots> = map (\<lambda>i. if minp \<le> Suc i then Some c else NaN) [0..<Suc n]"
    by (simp add: map_upt_Suc del: upt_Suc)
  finally show ?thesis .
qed

lemma upt_20: "[0..<20] = [0, 1, 2, 3, 4, 5, 6, 7, 8, 9, 10, 11, 12, 13, 14, 15, 16, 17, 18, 19]"
  by (simp add: upt_rec)

lemma ewm_mean_steady:
  "ewm_mean alpha 20 (replicate 20 (Some c)) = replicate 19 NaN @ [Some c]"
proof -
  have "replicate 20 (Some c) = replicate (Suc 19) (Some c)" by simp
  then have "ewm_mean alpha 20 (replicate 20 (Some c)) =
     map (\<lambda>i. if 20 \<le> Suc i then Some c else NaN) [0..<20]"
    by (simp only: ewm_mean_constant) simp
  also have "\<dots> = replicate 19 NaN @ [Some c]"
    by (simp add: upt_20) (simp add: numeral_eq_Suc)
  finally show ?thesis .
qed

lemma ewma_volatility_steady:
  assumes "0 < 1 - l" and "1 - l \<le> 1"
  shows "ewma_volatility default_engine steady_returns l 20 = Inr (replicate 19 NaN @ [Some (1 / 100)])"
proof -
  have sq: "map (\<lambda>r. fmul r r) steady_returns = replicate 20 (Some (1 / 10000))"
    by (simp add: steady_returns_def)
  show ?thesis
    using assms
    by (simp add: ewma_volatility_def Let_def sq ewm_mean_steady default_engine_def sqrt_hundredth)
qed

lemma garch_volatility_steady:
  "garch_volatility failing_fit default_engine steady_returns p q =
     Inr (replicate 19 NaN @ [Some (1 / 100)])"
  by (simp add: garch_volatility_def failing_fit_def ewma_volatility_steady)

lemma estimate_regime_volatility_steady:
  "estimate_regime_volatility failing_fit default_engine steady_returns ''bull'' =
     Inr (replicate 19 NaN @ [Some (1 / 100)])"
  "estimate_regime_volatility failing_fit default_engine steady_returns ''sideways'' =
     Inr (replicate 19 NaN @ [Some (1 / 100)])"
  "estimate_regime_volatility failing_fit default_engine steady_returns ''crisis'' =
     Inr (replicate 19 NaN @ [Some (1 / 100)])"
  by (simp_all add: estimate_regime_volatility_def garch_volatility_steady ewma_volatility_steady
        default_engine_def [THEN arg_cong [of _ _ bull_lambda]]
        default_engine_def [THEN arg_cong [of _ _ crisis_lambda]])

lemma compute_effective_volatility_steady:
  "compute_effective_volatility failing_fit default_engine steady_returns all_sideways =
     Inr (replicate 19 NaN @ [Some (1 / 100)])"
proof -
  have n: "length steady_returns = 20" "length all_sideways = 20"
    by (simp_all add: steady_returns_def all_sideways_def)
  have row: "t < 20 \<Longrightarrow> all_sideways ! t = \<lparr>bull = 0, sideways = 1, crisis = 0\<rparr>" for t
    by (simp add: all_sideways_def)
  have entry: "entry_at (take 20 (replicate 19 NaN @ [Some (1 / 100 :: real)])) t =
      (if t = 19 then Some (1 / 100) else NaN)" for t
    by (auto simp: entry_at_def nth_append)
  have "map (\<lambda>t. fadd (fadd
          (fmul (entry_at (take 20 (replicate 19 NaN @ [Some (1 / 100)])) t)
             (if t < 20 then Some (bull (all_sideways ! t)) else NaN))
          (fmul (entry_at (take 20 (replicate 19 NaN @ [Some (1 / 100)])) t)
             (if t < 20 then Some (sideways (all_sideways ! t)) else NaN)))
          (fmul (entry_at (take 20 (replicate 19 NaN @ [Some (1 / 100)])) t)
             (if t < 20 then Some (crisis (all_sideways ! t)) else NaN))) [0..<20]
      = replicate 19 NaN @ [Some (1 / 100)]"
    unfolding entry upt_20 by (simp add: row) (simp add: numeral_eq_Suc)
  then show ?thesis
    by (simp add: compute_effective_volatility_def estimate_regime_volatility_steady n Let_def)
qed

subsection \<open>The floor\<close>

text \<open>
  Claim C3 (volatility floor), as the code has it, for a positive \<open>min_variance\<close>. An
  entry of \<open>ewma_volatility\<close> is NaN exactly as long as fewer than \<open>min_periods\<close> (at
  least one) non-NaN returns have been seen, so by default at the first 19 days; every
  other entry is at least \<open>sqrt(min_variance)\<close>, hence positive. Every entry of
  \<open>garch_volatility\<close> that is not NaN is at least \<open>sqrt(min_variance)\<close>. The blend
  \<open>compute_effective_volatility\<close> is not clipped: its entry is NaN as long as fewer than
  20 non-NaN returns have been seen; an entry that is not NaN combines three regime
  volatilities that are each at least \<open>sqrt(min_variance)\<close>, and it is positive when the
  regime probabilities of its row are non-negative and sum to 1 within \<open>1e-9\<close>.
\<close>

theorem volatility_floor:
  assumes "0 < min_variance self"
  shows "(ewma_volatility self returns lambda_decay min_periods = Inr vol \<and> t < length returns
            \<longrightarrow> (vol ! t = NaN
                   \<longleftrightarrow> length (dropna (take (Suc t) returns)) < nat (max min_periods 1))
              \<and> (\<forall>v. vol ! t = Some v \<longrightarrow> sqrt (min_variance self) \<le> v \<and> 0 < v))
       \<and> (garch_volatility arch_fit self returns p q = Inr gvol \<and> t < length gvol
            \<longrightarrow> (\<forall>v. gvol ! t = Some v \<longrightarrow> sqrt (min_variance self) \<le> v \<and> 0 < v))
       \<and> (compute_effective_volatility arch_fit self returns regime_probs = Inr eff
            \<and> t < length returns
            \<longrightarrow> (length (dropna (take (Suc t) returns)) < 20 \<longrightarrow> eff ! t = NaN)
              \<and> (\<forall>v. eff ! t = Some v \<longrightarrow>
                    (\<exists>vol_bull vol_sideways vol_crisis a b c.
                        estimate_regime_volatility arch_fit self returns ''bull'' = Inr vol_bull
                      \<and> estimate_regime_volatility arch_fit self returns ''sideways''
                          = Inr vol_sideways
                      \<and> estimate_regime_volatility arch_fit self returns ''crisis''
                          = Inr vol_crisis
                      \<and> vol_bull ! t = Some a \<and> vol_sideways ! t = Some b
                      \<and> vol_crisis ! t = Some c
                      \<and> sqrt (min_variance self) \<le> a \<and> sqrt (min_variance self) \<le> b
                      \<and> sqrt (min_variance self) \<le> c)
                  \<and> (0 \<le> bull (regime_probs ! t) \<and> 0 \<le> sideways (regime_probs ! t)
                     \<and> 0 \<le> crisis (regime_probs ! t)
                     \<and> \<bar>bull (regime_probs ! t) + sideways (regime_probs ! t)
                          + crisis (regime_probs ! t) - 1\<bar> \<le> 1 / 10 ^ 9
                     \<longrightarrow> 0 < v)))"
proof -
  have pos: "0 < sqrt (min_variance self)" using assms by simp
  have pos': "0 < v" if "sqrt (min_variance self) \<le> v" for v
    using pos that by linarith
  have ewma: "(vol ! t = NaN
                   \<longleftrightarrow> length (dropna (take (Suc t) returns)) < nat (max min_periods 1))
              \<and> (\<forall>v. vol ! t = Some v \<longrightarrow> sqrt (min_variance self) \<le> v \<and> 0 < v)"
    if h: "ewma_volatility self returns lambda_decay min_periods = Inr vol \<and> t < length returns"
  proof -
    from h have e: "ewma_volatility self returns lambda_decay min_periods = Inr vol"
      and t: "t < length returns" by simp_all
    show ?thesis
      using ewma_volatility_entry(2) [OF assms e t] ewma_volatility_entry(3) [OF assms e t] pos'
      by blast
  qed
  have garch: "\<forall>v. gvol ! t = Some v \<longrightarrow> sqrt (min_variance self) \<le> v \<and> 0 < v"
    if h: "garch_volatility arch_fit self returns p q = Inr gvol \<and> t < length gvol"
  proof -
    from h have g: "garch_volatility arch_fit self returns p q = Inr gvol"
      and t: "t < length gvol" by simp_all
    show ?thesis
      using garch_volatility_entry [OF assms g t] pos' by blast
  qed
  have blend: "(length (dropna (take (Suc t) returns)) < 20 \<longrightarrow> eff ! t = NaN)
              \<and> (\<forall>v. eff ! t = Some v \<longrightarrow>
                    (\<exists>vol_bull vol_sideways vol_crisis a b c.
                        estimate_regime_volatility arch_fit self returns ''bull'' = Inr vol_bull
                      \<and> estimate_regime_volatility arch_fit self returns ''sideways''
                          = Inr vol_sideways
                      \<and> estimate_regime_volatility arch_fit self returns ''crisis''
                          = Inr vol_crisis
                      \<and> vol_bull ! t = Some a \<and> vol_sideways ! t = Some b
                      \<and> vol_crisis ! t = Some c
                      \<and> sqrt (min_variance self) \<le> a \<and> sqrt (min_variance self) \<le> b
                      \<and> sqrt (min_variance self) \<le> c)
                  \<and> (0 \<le> bull (regime_probs ! t) \<and> 0 \<le> sideways (regime_probs ! t)
                     \<and> 0 \<le> crisis (regime_probs ! t)
                     \<and> \<bar>bull (regime_probs ! t) + sideways (regime_probs ! t)
                          + crisis (regime_probs ! t) - 1\<bar> \<le> 1 / 10 ^ 9
                     \<longrightarrow> 0 < v))"
    if h: "compute_effective_volatility arch_fit self returns regime_probs = Inr eff
            \<and> t < length returns"
  proof -
    from h have c: "compute_effective_volatility arch_fit self returns regime_probs = Inr eff"
      and t: "t < length returns" by simp_all
    have early: "length (dropna (take (Suc t) returns)) < 20 \<longrightarrow> eff ! t = NaN"
      using compute_effective_volatility_early [OF assms c t] by blast
    have later: "(\<exists>vol_bull vol_sideways vol_crisis a b c.
                        estimate_regime_volatility arch_fit self returns ''bull'' = Inr vol_bull
                      \<and> estimate_regime_volatility arch_fit self returns ''sideways''
                          = Inr vol_sideways
                      \<and> estimate_regime_volatility arch_fit self returns ''crisis''
                          = Inr vol_crisis
                      \<and> vol_bull ! t = Some a \<and> vol_sideways ! t = Some b
                      \<and> vol_crisis ! t = Some c
                      \<and> sqrt (min_variance self) \<le> a \<and> sqrt (min_variance self) \<le> b
                      \<and> sqrt (min_variance self) \<le> c)
                  \<and> (0 \<le> bull (regime_probs ! t) \<and> 0 \<le> sideways (regime_probs ! t)
                     \<and> 0 \<le> crisis (regime_probs ! t)
                     \<and> \<bar>bull (regime_probs ! t) + sideways (regime_probs ! t)
                          + crisis (regime_probs ! t) - 1\<bar> \<le> 1 / 10 ^ 9
                     \<longrightarrow> 0 < v)" if v: "eff ! t = Some v" for v
    proof -
      from compute_effective_volatility_entry [OF assms c t v]
      obtain vol_bull vol_sideways vol_crisis a b c' where
        parts: "estimate_regime_volatility arch_fit self returns ''bull'' = Inr vol_bull"
          "estimate_regime_volatility arch_fit self returns ''sideways'' = Inr vol_sideways"
          "estimate_regime_volatility arch_fit self returns ''crisis'' = Inr vol_crisis"
          "vol_bull ! t = Some a" "vol_sideways ! t = Some b" "vol_crisis ! t = Some c'" and
        floors: "sqrt (min_variance self) \<le> a" "sqrt (min_variance self) \<le> b"
          "sqrt (min_variance self) \<le> c'" and
        val: "v = a * bull (regime_probs ! t) + b * sideways (regime_probs ! t)
            + c' * crisis (regime_probs ! t)"
        by blast
      have "0 < v"
        if "0 \<le> bull (regime_probs ! t) \<and> 0 \<le> sideways (regime_probs ! t)
                     \<and> 0 \<le> crisis (regime_probs ! t)
                     \<and> \<bar>bull (regime_probs ! t) + sideways (regime_probs ! t)
                          + crisis (regime_probs ! t) - 1\<bar> \<le> 1 / 10 ^ 9"
        unfolding val using that by (intro blend_positive [OF pos floors]) simp_all
      with parts floors show ?thesis by blast
    qed
    from early later show ?thesis by blast
  qed
  from ewma garch blend show ?thesis by blast
qed

text \<open>
  Twenty days of a one-percent return under the default engine, with a fit that fails and
  the sideways row on every day: the three series are NaN for 19 days and 0.01 at the last.
\<close>

theorem volatility_floor_witness:
  "0 < min_variance default_engine
   \<and> ewma_volatility default_engine steady_returns (94 / 100) 20 =
       Inr (replicate 19 NaN @ [Some (1 / 100)])
   \<and> garch_volatility failing_fit default_engine steady_returns 1 1 =
       Inr (replicate 19 NaN @ [Some (1 / 100)])
   \<and> compute_effective_volatility failing_fit default_engine steady_returns all_sideways =
       Inr (replicate 19 NaN @ [Some (1 / 100)])
   \<and> 19 < length steady_returns
   \<and> (replicate 19 NaN @ [Some (1 / 100 :: real)]) ! 19 = Some (1 / 100)
   \<and> sqrt (min_variance default_engine) \<le> 1 / 100"
proof -
  have mv: "0 < min_variance default_engine"
    by (simp add: default_engine_def)
  have e: "ewma_volatility default_engine steady_returns (94 / 100) 20 =
       Inr (replicate 19 NaN @ [Some (1 / 100)])"
    by (rule ewma_volatility_steady) simp_all
  have last: "(replicate 19 NaN @ [Some (1 / 100 :: real)]) ! 19 = Some (1 / 100)"
    by (simp add: nth_append)
  have len: "19 < length steady_returns"
    by (simp add: steady_returns_def)
  have "\<forall>v. (replicate 19 NaN @ [Some (1 / 100)]) ! 19 = Some v
          \<longrightarrow> sqrt (min_variance default_engine) \<le> v \<and> 0 < v"
    using volatility_floor [OF mv, where returns = steady_returns and lambda_decay = "94 / 100"
        and min_periods = 20 and vol = "replicate 19 NaN @ [Some (1 / 100)]" and t = 19
        and arch_fit = failing_fit and p = 1 and q = 1
        and gvol = "replicate 19 NaN @ [Some (1 / 100)]"
        and regime_probs = all_sideways and eff = "replicate 19 NaN @ [Some (1 / 100)]"]
      e len
    by blast
  with last have "sqrt (min_variance default_engine) \<le> 1 / 100"
    by blast
  with mv e garch_volatility_steady [of 1 1] compute_effective_volatility_steady last len
  show ?thesis by blast
qed

text \<open>
  Claim C3 fails at the first days of a series: on twenty days of a one-percent return the
  EWMA volatility (default \<open>min_periods = 20\<close>) and the blend are NaN at day 0.
\<close>

theorem volatility_floor_counterexample:
  "0 < length steady_returns
   \<and> ewma_volatility default_engine steady_returns (94 / 100) 20 =
       Inr (replicate 19 NaN @ [Some (1 / 100)])
   \<and> compute_effective_volatility failing_fit default_engine steady_returns all_sideways =
       Inr (replicate 19 NaN @ [Some (1 / 100)])
   \<and> (replicate 19 NaN @ [Some (1 / 100 :: real)]) ! 0 = NaN"
proof -
  have e: "ewma_volatility default_engine steady_returns (94 / 100) 20 =
       Inr (replicate 19 NaN @ [Some (1 / 100)])"
    by (rule ewma_volatility_steady) simp_all
  have "(replicate 19 NaN @ [Some (1 / 100 :: real)]) ! 0 = NaN"
    by (simp add: nth_append)
  with e compute_effective_volatility_steady show ?thesis
    by (simp add: steady_returns_def)
qed

subsection \<open>The fallback of the GARCH estimator\<close>

text \<open>
  Claim C6 (GARCH fallback): when the fitting routine raises, \<open>garch_volatility\<close> returns
  what \<open>ewma_volatility\<close> returns for the decay 0.90, and that is a series (of the length
  of the returns), not an error.
\<close>

theorem garch_volatility_fallback:
  assumes "arch_fit (map (\<lambda>r. fmul r (Some 100)) returns) p q = Inl e"
  shows "garch_volatility arch_fit self returns p q = ewma_volatility self returns (9 / 10) 20
       \<and> (\<exists>vol. garch_volatility arch_fit self returns p q = Inr vol
                \<and> length vol = length returns)"
  using assms ewma_volatility_fallback_returns [of self returns]
  by (simp add: garch_volatility_def)

text \<open>A fitting routine that always fails, on a two-day series.\<close>

theorem garch_volatility_fallback_witness:
  "garch_volatility (\<lambda>rs p q. Inl FitError)
       \<lparr>bull_lambda = 94 / 100, crisis_lambda = 85 / 100, garch_p = 1, garch_q = 1,
        min_variance = 1 / 10 ^ 6\<rparr> [Some (1 / 100), NaN] 1 1 =
     ewma_volatility
       \<lparr>bull_lambda = 94 / 100, crisis_lambda = 85 / 100, garch_p = 1, garch_q = 1,
        min_variance = 1 / 10 ^ 6\<rparr> [Some (1 / 100), NaN] (9 / 10) 20
   \<and> ewma_volatility
       \<lparr>bull_lambda = 94 / 100, crisis_lambda = 85 / 100, garch_p = 1, garch_q = 1,
        min_variance = 1 / 10 ^ 6\<rparr> [Some (1 / 100), NaN] (9 / 10) 20 = Inr [NaN, NaN]"
  using garch_volatility_fallback [of "\<lambda>rs p q. Inl FitError" "[Some (1 / 100), NaN]" 1 1 FitError
      "\<lparr>bull_lambda = 94 / 100, crisis_lambda = 85 / 100, garch_p = 1, garch_q = 1,
        min_variance = 1 / 10 ^ 6\<rparr>"]
  by (simp add: ewma_volatility_def ewm_mean_def Let_def)

section \<open>Unknown regime labels\<close>

text \<open>
  Claim C9 (unknown regime label), as the code has it: for a label other than bull,
  sideways and crisis, \<open>VolatilityEngine.estimate_regime_volatility\<close> raises ValueError,
  while \<open>DriftEngine.update_regime_parameters\<close> raises nothing: it sets the process noise
  with the multiplier 1.0 (as for bull) and, when adaptive, the observation noise without
  the crisis doubling.
\<close>

theorem unknown_regime:
  assumes "regime \<noteq> ''bull''" and "regime \<noteq> ''sideways''" and "regime \<noteq> ''crisis''"
  shows "estimate_regime_volatility arch_fit self returns regime = Inl ValueError
       \<and> update_regime_parameters de regime volatility =
           Inr (de\<lparr>kf_Q := state_noise_factor de * 1,
                   kf_R := (if adaptive de then max (volatility\<^sup>2) (min_obs_variance de)
                            else kf_R de)\<rparr>)"
  using assms
  by (simp add: estimate_regime_volatility_def update_regime_parameters_def Let_def)

text \<open>The label \<open>volatile\<close> in the volatility engine.\<close>

theorem unknown_regime_witness:
  "estimate_regime_volatility (\<lambda>rs p q. Inl FitError)
       \<lparr>bull_lambda = 94 / 100, crisis_lambda = 85 / 100, garch_p = 1, garch_q = 1,
        min_variance = 1 / 10 ^ 6\<rparr> [Some (1 / 100)] ''volatile'' = Inl ValueError"
  using unknown_regime [of "''volatile''" "\<lambda>rs p q. Inl FitError"
      "\<lparr>bull_lambda = 94 / 100, crisis_lambda = 85 / 100, garch_p = 1, garch_q = 1,
        min_variance = 1 / 10 ^ 6\<rparr>" "[Some (1 / 100)]"]
  by simp

text \<open>
  Claim C9 fails in the drift engine: the label \<open>volatile\<close> is accepted, and the call
  returns with both noise matrices set.
\<close>

theorem unknown_regime_counterexample:
  "update_regime_parameters
     \<lparr>initial_drift = 0, state_noise_factor = 1 / 10 ^ 5, min_obs_variance = 1 / 10 ^ 6,
      adaptive = True, kf_Q = 1, kf_R = 1\<rparr> ''volatile'' (2 / 10) =
   Inr \<lparr>initial_drift = 0, state_noise_factor = 1 / 10 ^ 5, min_obs_variance = 1 / 10 ^ 6,
      adaptive = True, kf_Q = 1 / 10 ^ 5, kf_R = 4 / 100\<rparr>"
  by (simp add: update_regime_parameters_def Let_def power2_eq_square)

section \<open>Properties of the pricing engine\<close>

lemma fadd_zero_right: "fadd price (Some 0) = price"
  by (cases price) simp_all

lemma merton_loop_zero_terms:
  "(\<And>k. k \<in> set ks \<Longrightarrow> term k = Inr (Some 0)) \<Longrightarrow> merton_loop term ks price = Inr price"
  by (induction ks arbitrary: price) (simp_all add: fadd_zero_right)

lemma not_overflows_small: "\<bar>x\<bar> \<le> 1 \<Longrightarrow> \<not> overflows x"
  by (simp add: overflows_def)

lemma upt_20_Cons: "[0..<20] = 0 # [1..<20]"
  by (simp add: upt_conv_Cons)

lemma merton_term_at_expiry_python:
  "merton_term norm_cdf False 100 90 0 (5 / 100) (2 / 10) 0 0 0 0 = Inl ZeroDivisionError"
  by (simp add: merton_term_def not_overflows_small power2_eq_square)

lemma merton_term_at_expiry_numpy_first:
  "merton_term norm_cdf True 100 90 0 (5 / 100) (2 / 10) 0 0 0 0 = Inr (Some 10)"
  by (simp add: merton_term_def black_scholes_call_def not_overflows_small power2_eq_square)

lemma merton_term_at_expiry_numpy_later:
  assumes "0 < k" and "k < 171"
  shows "merton_term norm_cdf True 100 90 0 (5 / 100) (2 / 10) 0 0 0 k = Inr (Some 0)"
  using assms
  by (simp add: merton_term_def black_scholes_call_def not_overflows_small power2_eq_square
        power_0_left)

text \<open>
  Claim C5 (Merton with zero intensity) at expiry. For \<open>S = 100\<close>, \<open>K = 90\<close>, \<open>T = 0\<close>,
  \<open>r = 0.05\<close>, \<open>sigma = 0.2\<close>, \<open>lam = 0\<close> and Python floats \<open>mu_j = sigma_j = 0.0\<close>,
  \<open>merton_call\<close> raises ZeroDivisionError in its first term, while
  \<open>black_scholes_call\<close> returns the intrinsic value 10 by its guard \<open>T <= 0\<close>. With the
  same jump parameters as numpy floats the division does not raise, every term reaches
  that guard, and \<open>merton_call\<close> returns 10 as well.
\<close>

theorem merton_call_at_expiry:
  "\<forall>norm_cdf.
     merton_call norm_cdf False 100 90 0 (5 / 100) (2 / 10) 0 0 0 20 = Inl ZeroDivisionError
   \<and> black_scholes_call norm_cdf False 100 90 0 (5 / 100) (2 / 10) = Inr (Some 10)
   \<and> merton_call norm_cdf True 100 90 0 (5 / 100) (2 / 10) 0 0 0 20 = Inr (Some 10)"
proof (intro allI conjI)
  fix norm_cdf :: "real \<Rightarrow> real"
  let ?python = "merton_term norm_cdf False 100 90 0 (5 / 100) (2 / 10) 0 0 0"
  let ?numpy = "merton_term norm_cdf True 100 90 0 (5 / 100) (2 / 10) 0 0 0"
  have "merton_loop ?python (0 # [1..<20]) (Some 0) = Inl ZeroDivisionError"
    by (simp only: merton_loop.simps merton_term_at_expiry_python sum.case)
  then show "merton_call norm_cdf False 100 90 0 (5 / 100) (2 / 10) 0 0 0 20
      = Inl ZeroDivisionError"
    by (simp only: merton_call_def upt_20_Cons)
  show "black_scholes_call norm_cdf False 100 90 0 (5 / 100) (2 / 10) = Inr (Some 10)"
    by (simp add: black_scholes_call_def)
  have first: "?numpy 0 = Inr (Some 10)"
    by (rule merton_term_at_expiry_numpy_first)
  have later: "?numpy k = Inr (Some 0)" if "k \<in> set [1..<20]" for k
  proof -
    from that have "0 < k" and "k < 171" by simp_all
    then show ?thesis
      by (rule merton_term_at_expiry_numpy_later)
  qed
  have rest: "merton_loop ?numpy [1..<20] price = Inr price" for price
    by (rule merton_loop_zero_terms) (rule later)
  have "merton_loop ?numpy (0 # [1..<20]) (Some 0) = Inr (fadd (Some 0) (Some 10))"
    by (simp only: merton_loop.simps first sum.case rest)
  then have "merton_loop ?numpy (0 # [1..<20]) (Some 0) = Inr (Some 10)"
    by simp
  then show "merton_call norm_cdf True 100 90 0 (5 / 100) (2 / 10) 0 0 0 20 = Inr (Some 10)"
    by (simp only: merton_call_def upt_20_Cons)
qed

section \<open>Properties of the decision stage\<close>

lemma confidence_sample: "confidence (- 1 / 10) (5 / 100) = 1 / (1 + exp (- 5 / 2))"
  by (simp add: confidence_def raw_bias_def sigmoid_def)

lemma confidence_sample_gt: "1 / 2 < confidence (- 1 / 10) (5 / 100)"
proof -
  have "exp (- 5 / 2 :: real) < 1" by simp
  then have "1 + exp (- 5 / 2 :: real) < 2" by simp
  then have "1 / 2 < 1 / (1 + exp (- 5 / 2 :: real))"
    by (intro divide_strict_left_mono) (simp_all add: add_pos_pos)
  then show ?thesis by (simp only: confidence_sample)
qed

lemma decision_stage_sample:
  "decision_stage sample_dec_cfg sample_kel_cfg (- 1 / 10) (5 / 100) 1 0
       \<lparr>bull = 0, sideways = 1, crisis = 0\<rparr> =
     Inr (confidence (- 1 / 10) (5 / 100), 2 / 10, BUY)"
proof -
  let ?c = "confidence (- 1 / 10) (5 / 100)"
  note c = confidence_sample_gt
  have p: "position sample_kel_cfg (- 1 / 10) ?c 1 0 \<lparr>bull = 0, sideways = 1, crisis = 0\<rparr> = Inr (2 / 10)"
    using c by (simp add: position_def sample_kel_cfg_def direction_def Let_def min_def max_def)
  have v: "final_verdict sample_dec_cfg sample_kel_cfg (- 1 / 10) ?c (2 / 10)
             (crisis \<lparr>bull = 0, sideways = 1, crisis = 0\<rparr>) = BUY"
    using c by (simp add: final_verdict_def sample_dec_cfg_def sample_kel_cfg_def)
  show ?thesis
    by (simp only: decision_stage_def Let_def p v sum.case)
qed

text \<open>
  Claim C4 (verdict gating): the stage's verdict is REFUSE unless the four gates hold
  (mispricing not zero, confidence above \<open>min_confidence\<close>, the absolute position at least
  \<open>min_position\<close>, and crisis probability at most 0.5 or crisis trades allowed); when they
  hold it is BUY for a negative mispricing and SELL for a positive one. In particular a
  confidence of at most \<open>min_confidence\<close> gives REFUSE. The confidence and the position are
  the ones the stage computes.
\<close>

theorem decision_stage_verdict:
  assumes "decision_stage dec_cfg kel_cfg mispricing buy_threshold sigma_t uncertainty_t probs
             = Inr (conf, pos, v)"
      and "gates = (mispricing \<noteq> 0 \<and> min_confidence dec_cfg < conf
                    \<and> min_position kel_cfg \<le> \<bar>pos\<bar>
                    \<and> (crisis probs \<le> 0.5 \<or> allow_crisis_trades dec_cfg))"
  shows "conf = confidence mispricing buy_threshold
       \<and> position kel_cfg mispricing conf sigma_t uncertainty_t probs = Inr pos
       \<and> (if gates then (if mispricing < 0 then v = BUY else v = SELL) else v = REFUSE)
       \<and> (if conf \<le> min_confidence dec_cfg then v = REFUSE else True)"
  using assms
  by (auto simp: decision_stage_def final_verdict_def Let_def split: sum.splits)

text \<open>
  A negative mispricing of twice the threshold in a sideways regime: all gates hold, BUY.
\<close>

theorem decision_stage_verdict_witness:
  "decision_stage sample_dec_cfg sample_kel_cfg (- 1 / 10) (5 / 100) 1 0
       \<lparr>bull = 0, sideways = 1, crisis = 0\<rparr> =
     Inr (confidence (- 1 / 10) (5 / 100), 2 / 10, BUY)
   \<and> min_confidence sample_dec_cfg < confidence (- 1 / 10) (5 / 100)
   \<and> min_position sample_kel_cfg \<le> \<bar>2 / 10\<bar>
   \<and> position sample_kel_cfg (- 1 / 10) (confidence (- 1 / 10) (5 / 100)) 1 0
        \<lparr>bull = 0, sideways = 1, crisis = 0\<rparr> = Inr (2 / 10)"
  using decision_stage_sample confidence_sample_gt
    decision_stage_verdict [OF decision_stage_sample refl]
  by (simp add: sample_dec_cfg_def sample_kel_cfg_def)






end
